theory Spec2Isabelle
  imports Main "HOL-Library.Sublist"
begin

section \<open>Platform values: strings, numbers, errors, JSON\<close>

text \<open>
  A JavaScript string is modelled as a \<^typ>\<open>string\<close>: a list of code units, here
  restricted to the range 0..255. Numbers (HTTP status, timeout, request id, the numbers
  of a JSON value) are integers; fractions are outside the model.
\<close>

definition digit_char :: "nat \<Rightarrow> char" where
  "digit_char d = ''0123456789'' ! d"

function show_nat :: "nat \<Rightarrow> string" where
  "show_nat n = (if n < 10 then [digit_char n] else show_nat (n div 10) @ [digit_char (n mod 10)])"
  by pat_completeness auto
termination
  by (relation "measure (\<lambda>n. n)") auto

declare show_nat.simps [simp del]

text \<open>
  The decimal rendering of an integer inside a template literal. The platform prints all
  digits up to \<open>10\<^sup>2\<^sup>1\<close> and switches to exponent form from there on; integers of that
  size are outside the model.
\<close>

definition show_int :: "int \<Rightarrow> string" where
  "show_int i = (if i < 0 then CHR ''-'' # show_nat (nat (- i)) else show_nat (nat i))"

text \<open>\<open>Array.prototype.join\<close> on an array of strings.\<close>

fun join :: "string \<Rightarrow> string list \<Rightarrow> string" where
  "join sep [] = []"
| "join sep [x] = x"
| "join sep (x # y # ys) = x @ sep @ join sep (y # ys)"

text \<open>
  \<open>String.prototype.trim\<close>: the white space of ECMAScript that fits the modelled range
  of code units (TAB, LF, VT, FF, CR, SPACE, NBSP).
\<close>

definition is_js_space :: "char \<Rightarrow> bool" where
  "is_js_space c = (c \<in> set [CHR 0x09, CHR 0x0A, CHR 0x0B, CHR 0x0C, CHR 0x0D, CHR 0x20, CHR 0xA0])"

definition trim :: "string \<Rightarrow> string" where
  "trim s = rev (dropWhile is_js_space (rev (dropWhile is_js_space s)))"

text \<open>\<open>s.startsWith(p)\<close> is \<^term>\<open>prefix p s\<close>; \<open>s.includes(p)\<close> is \<^term>\<open>sublist p s\<close>.\<close>

definition startsWith :: "string \<Rightarrow> string \<Rightarrow> bool" where
  "startsWith s p = prefix p s"

definition includes_str :: "string \<Rightarrow> string \<Rightarrow> bool" where
  "includes_str s p = sublist p s"

text \<open>
  \<open>raw.split(/\r?\n/)\<close>: the pattern is tried at each position from the left, so a
  line break is LF or CR LF, and a CR that is not followed by LF stays in its line.
\<close>

fun split_lines :: "string \<Rightarrow> string list" where
  "split_lines [] = [[]]"
| "split_lines (c # cs) =
     (if c = CHR 0x0A then [] # split_lines cs
      else if c = CHR 0x0D \<and> cs \<noteq> [] \<and> hd cs = CHR 0x0A then [] # split_lines (tl cs)
      else (case split_lines cs of
              [] \<Rightarrow> [[c]]
            | l # ls \<Rightarrow> (c # l) # ls))"

text \<open>
  A thrown value: every value the modelled code throws or catches is an \<open>Error\<close> object,
  of which the code reads \<open>name\<close> and \<open>message\<close>.
\<close>

datatype js_error = JsError (err_name: string) (err_message: string)

text \<open>\<open>new Error(message)\<close>.\<close>

definition Error :: "string \<Rightarrow> js_error" where
  "Error m = JsError ''Error'' m"

definition SyntaxError :: "string \<Rightarrow> js_error" where
  "SyntaxError m = JsError ''SyntaxError'' m"

definition TypeError :: "string \<Rightarrow> js_error" where
  "TypeError m = JsError ''TypeError'' m"

text \<open>
  A value produced by \<open>JSON.parse\<close>. An object is the list of its own properties, each
  key once; a property read looks the key up in the list.
\<close>

datatype json =
    JNull
  | JBool bool
  | JNum int
  | JStr string
  | JArr "json list"
  | JObj "(string \<times> json) list"

text \<open>JavaScript truthiness of a value (\<open>undefined\<close> is \<^term>\<open>None\<close>).\<close>

fun truthy :: "json \<Rightarrow> bool" where
  "truthy JNull = False"
| "truthy (JBool b) = b"
| "truthy (JNum n) = (n \<noteq> 0)"
| "truthy (JStr s) = (s \<noteq> [])"
| "truthy (JArr xs) = True"
| "truthy (JObj kvs) = True"

definition truthy_opt :: "json option \<Rightarrow> bool" where
  "truthy_opt v = (case v of None \<Rightarrow> False | Some j \<Rightarrow> truthy j)"

text \<open>\<open>typeof v === "object"\<close>: objects, arrays and \<open>null\<close>.\<close>

fun typeof_object :: "json \<Rightarrow> bool" where
  "typeof_object JNull = True"
| "typeof_object (JArr xs) = True"
| "typeof_object (JObj kvs) = True"
| "typeof_object v = False"

text \<open>
  \<open>String(v)\<close>, which is also what a template literal does to \<open>v\<close>. An array joins its
  elements with a comma, \<open>null\<close> elements giving the empty string.
\<close>

fun js_String :: "json \<Rightarrow> string" where
  "js_String JNull = ''null''"
| "js_String (JBool b) = (if b then ''true'' else ''false'')"
| "js_String (JNum n) = show_int n"
| "js_String (JStr s) = s"
| "js_String (JArr xs) = join '','' (map (\<lambda>x. if x = JNull then [] else js_String x) xs)"
| "js_String (JObj kvs) = ''[object Object]''"

text \<open>
  A property read \<open>v.k\<close> for a key that no prototype defines (\<open>error\<close>, \<open>message\<close>,
  \<open>result\<close>, \<open>sessionId\<close>, \<open>command\<close>, \<open>tool\<close>, \<open>args\<close>): on \<open>null\<close> it throws a
  TypeError, on an object it is the own property or \<open>undefined\<close>, on any other value it is
  \<open>undefined\<close>.
\<close>

definition lookup :: "(string \<times> json) list \<Rightarrow> string \<Rightarrow> json option" where
  "lookup kvs k = map_of kvs k"

fun get_prop :: "json \<Rightarrow> string \<Rightarrow> js_error + json option" where
  "get_prop JNull k =
     Inl (TypeError (''Cannot read properties of null (reading '' @ [CHR 0x27] @ k @ [CHR 0x27] @ '')''))"
| "get_prop (JObj kvs) k = Inr (lookup kvs k)"
| "get_prop v k = Inr None"


section \<open>The platform the client runs on\<close>

text \<open>
  What \<open>execute\<close> passes to \<open>fetch\<close>: the URL and, of the init object, the headers, the
  body and the signal (the method is always POST). The body is kept as the payload object
  that the code passes to \<open>JSON.stringify\<close>. The signal is that of a fresh
  \<open>AbortController\<close> whose \<open>abort\<close> the code hands to \<open>setTimeout\<close>; it is kept as the
  delay in milliseconds that the code gives to \<open>setTimeout\<close>.
\<close>

record JsonRpcRequest =
  rpc_id :: "int option"
  rpc_method :: string
  rpc_params :: "json option"

record http_request =
  req_url :: string
  req_headers :: "(string \<times> string) list"
  req_body :: JsonRpcRequest
  req_signal :: int

text \<open>
  What \<open>fetch\<close> resolves with: the status line, the headers (names in lower case, as
  \<open>Headers.get\<close> compares them) and the outcome of reading the body with
  \<open>response.text()\<close>, which may itself reject.
\<close>

record http_response =
  status :: int
  statusText :: string
  resp_headers :: "(string \<times> string) list"
  resp_text :: "js_error + string"

datatype fetch_outcome = FetchRejected js_error | FetchResolved http_response

definition headers_get :: "http_response \<Rightarrow> string \<Rightarrow> string option" where
  "headers_get r k = map_of (resp_headers r) k"

text \<open>\<open>response.ok\<close> of the Fetch standard: the status is in the range 200 to 299.\<close>

definition response_ok :: "http_response \<Rightarrow> bool" where
  "response_ok r = (200 \<le> status r \<and> status r \<le> 299)"

text \<open>
  The rejection of a request whose signal was aborted: a \<open>DOMException\<close> named
  \<open>AbortError\<close>.
\<close>

definition AbortError :: js_error where
  "AbortError = JsError ''AbortError'' ''This operation was aborted''"

text \<open>
  The functions of the platform that the client calls and that are not part of the
  repository. \<open>JSON_parse\<close> returns the message of the SyntaxError on the left when it
  throws. \<open>JSON_stringify2\<close> is \<open>JSON.stringify(v, null, 2)\<close>. \<open>fetch\<close> is the network
  and the server: it is given all requests issued so far, the current one last.
\<close>

record platform =
  JSON_parse :: "string \<Rightarrow> string + json"
  JSON_stringify :: "json \<Rightarrow> string"
  JSON_stringify2 :: "json \<Rightarrow> string"
  fetch :: "http_request list \<Rightarrow> fetch_outcome"

text \<open>
  How \<open>fetch\<close> treats the signal, after the Fetch standard and the timers of Node. An
  exchange with the server, left alone, settles \<open>fetch\<close> after \<open>settles_at\<close> milliseconds
  (with the response head or with a network failure) and, when there is a response, the
  reading of its body after \<open>body_at\<close> milliseconds, both counted from the call. A timer
  set with a delay from 1 to \<open>2\<^sup>3\<^sup>1 - 1\<close> fires after that delay, and after 1 millisecond
  for any other delay. When the timer fires before \<open>fetch\<close> has settled, \<open>fetch\<close> rejects
  with \<open>AbortError\<close>; when it fires after that and before the body is read, the reading
  of the body rejects with \<open>AbortError\<close>; an exchange that is over when the timer fires
  is not touched (\<open>clearTimeout\<close> in the \<open>finally\<close> block has cancelled the timer).
\<close>

record exchange =
  settles_at :: int
  body_at :: int
  unaborted :: fetch_outcome

definition timer_delay :: "int \<Rightarrow> int" where
  "timer_delay t = (if 1 \<le> t \<and> t \<le> 2147483647 then t else 1)"

definition in_flight :: "int \<Rightarrow> exchange \<Rightarrow> bool" where
  "in_flight d x =
     (d < settles_at x \<or> (case unaborted x of FetchRejected e \<Rightarrow> False | FetchResolved r \<Rightarrow> d < body_at x))"

definition with_signal :: "int \<Rightarrow> exchange \<Rightarrow> fetch_outcome" where
  "with_signal d x =
     (if d < settles_at x then FetchRejected AbortError
      else (case unaborted x of
              FetchRejected e \<Rightarrow> FetchRejected e
            | FetchResolved r \<Rightarrow>
                if d < body_at x then FetchResolved (r\<lparr>resp_text := Inl AbortError\<rparr>)
                else FetchResolved r))"

text \<open>
  The \<open>fetch\<close> of a server that is given as the exchange it has with the latest request
  of the log: the signal of that request is applied to the exchange.
\<close>

definition timed_fetch :: "(http_request list \<Rightarrow> exchange) \<Rightarrow> http_request list \<Rightarrow> fetch_outcome" where
  "timed_fetch server log =
     (case rev log of
        [] \<Rightarrow> unaborted (server log)
      | r # earlier \<Rightarrow> with_signal (timer_delay (req_signal r)) (server log))"

section \<open>client.ts\<close>

record McpClientOptions =
  opt_url :: string
  opt_gatewayToken :: "string option"
  opt_backendToken :: "string option"
  opt_timeout :: "int option"

record McpClient =
  url :: string
  gatewayToken :: "string option"
  backendToken :: "string option"
  timeout :: int
  requestId :: int
  sessionId :: "string option"

text \<open>\<open>s.replace(/\/$/, "")\<close>: the pattern matches one slash at the very end of \<open>s\<close>.\<close>

definition strip_trailing_slash :: "string \<Rightarrow> string" where
  "strip_trailing_slash s = (if s \<noteq> [] \<and> last s = CHR ''/'' then butlast s else s)"

definition new_McpClient :: "McpClientOptions \<Rightarrow> McpClient" where
  "new_McpClient options =
     \<lparr> url = strip_trailing_slash (opt_url options),
       gatewayToken = opt_gatewayToken options,
       backendToken = opt_backendToken options,
       timeout = (case opt_timeout options of None \<Rightarrow> 30000 | Some t \<Rightarrow> t),
       requestId = 0,
       sessionId = None \<rparr>"

definition nextRequestId :: "McpClient \<Rightarrow> int \<times> McpClient" where
  "nextRequestId c = (requestId c + 1, c\<lparr>requestId := requestId c + 1\<rparr>)"

text \<open>A string option is truthy when it is defined and not empty.\<close>

definition truthy_str :: "string option \<Rightarrow> bool" where
  "truthy_str v = (case v of None \<Rightarrow> False | Some s \<Rightarrow> s \<noteq> [])"

definition buildHeaders :: "McpClient \<Rightarrow> (string \<times> string) list" where
  "buildHeaders c =
     [(''content-type'', ''application/json''),
      (''accept'', ''application/json, text/event-stream''),
      (''user-agent'', ''mcp-ink-cli/0.1.0'')]
     @ (if truthy_str (gatewayToken c) then [(''x-authorization'', ''Bearer '' @ the (gatewayToken c))] else [])
     @ (if truthy_str (backendToken c) then [(''authorization'', ''Bearer '' @ the (backendToken c))] else [])
     @ (if truthy_str (sessionId c) then [(''mcp-session-id'', the (sessionId c))] else [])"

definition empty_envelope :: json where
  "empty_envelope = JObj [(''jsonrpc'', JStr ''2.0'')]"

definition sse_error_envelope :: json where
  "sse_error_envelope =
     JObj [(''jsonrpc'', JStr ''2.0''),
           (''error'', JObj [(''message'', JStr ''No JSON payload found in SSE response'')])]"

text \<open>
  \<open>buildHttpError\<close>. The \<open>try\<close> block yields the error to return, nothing when it falls
  through, or throws (the parse fails, or the parsed value is \<open>null\<close>); the last two
  cases continue with the raw body.
\<close>

definition buildHttpError_try :: "platform \<Rightarrow> int \<Rightarrow> string \<Rightarrow> string \<Rightarrow> js_error + js_error option" where
  "buildHttpError_try P st stText body =
     (case JSON_parse P body of
        Inl m \<Rightarrow> Inl (SyntaxError m)
      | Inr js \<Rightarrow>
          (case get_prop js ''error'' of
             Inl e \<Rightarrow> Inl e
           | Inr err \<Rightarrow>
               if truthy_opt err \<and> typeof_object (the err) then
                 (let message =
                        (case get_prop (the err) ''message'' of
                           Inr (Some m) \<Rightarrow> (if m = JNull then JSON_stringify P (the err) else js_String m)
                         | _ \<Rightarrow> JSON_stringify P (the err))
                  in Inr (Some (Error (''HTTP '' @ show_int st @ '' '' @ stText @ '': '' @ message))))
               else Inr None))"

definition buildHttpError :: "platform \<Rightarrow> int \<Rightarrow> string \<Rightarrow> string \<Rightarrow> js_error" where
  "buildHttpError P st stText body =
     (case buildHttpError_try P st stText body of
        Inr (Some e) \<Rightarrow> e
      | _ \<Rightarrow>
          (let normalizedBody = (if body \<noteq> [] then '' '' @ trim body else [])
           in Error (''HTTP '' @ show_int st @ '' '' @ stText @ ''.'' @ normalizedBody)))"

text \<open>
  \<open>parseSsePayload\<close>: the loop over the lines, returning at the first line that starts
  with \<open>data:\<close> and whose trimmed rest is not empty and parses.
\<close>

fun parseSse_lines :: "platform \<Rightarrow> string list \<Rightarrow> json" where
  "parseSse_lines P [] = sse_error_envelope"
| "parseSse_lines P (line # rest) =
     (if startsWith line ''data:'' then
        (let payload = trim (drop 5 line) in
         if payload \<noteq> [] then
           (case JSON_parse P payload of
              Inr v \<Rightarrow> v
            | Inl m \<Rightarrow> parseSse_lines P rest)
         else parseSse_lines P rest)
      else parseSse_lines P rest)"

definition parseSsePayload :: "platform \<Rightarrow> string \<Rightarrow> json" where
  "parseSsePayload P raw = parseSse_lines P (split_lines raw)"

text \<open>
  \<open>execute\<close>, for a given outcome of \<open>fetch\<close>. The \<open>try\<close> block returns the value or
  the thrown error on the left, together with the client as the block leaves it; the
  \<open>catch\<close> block turns a thrown error into the result of the call.
\<close>

definition execute_try :: "platform \<Rightarrow> McpClient \<Rightarrow> bool \<Rightarrow> fetch_outcome \<Rightarrow> (js_error + json) \<times> McpClient" where
  "execute_try P c ignoreErrors out =
     (case out of
        FetchRejected e \<Rightarrow> (Inl e, c)
      | FetchResolved response \<Rightarrow>
          (let c' = c\<lparr>sessionId :=
                       (case headers_get response ''mcp-session-id'' of
                          Some s \<Rightarrow> Some s
                        | None \<Rightarrow> sessionId c)\<rparr>;
               contentType = (case headers_get response ''content-type'' of Some t \<Rightarrow> t | None \<Rightarrow> [])
           in (case resp_text response of
                 Inl e \<Rightarrow> (Inl e, c')
               | Inr rawBody \<Rightarrow>
                   if \<not> response_ok response \<and> \<not> ignoreErrors then
                     (Inl (buildHttpError P (status response) (statusText response) rawBody), c')
                   else if rawBody = [] then (Inr empty_envelope, c')
                   else if includes_str contentType ''text/event-stream'' then
                     (Inr (parseSsePayload P rawBody), c')
                   else (case JSON_parse P rawBody of
                           Inl m \<Rightarrow> (Inl (SyntaxError m), c')
                         | Inr v \<Rightarrow> (Inr v, c')))))"

definition execute_catch :: "McpClient \<Rightarrow> bool \<Rightarrow> js_error \<Rightarrow> js_error + json" where
  "execute_catch c ignoreErrors error =
     (if ignoreErrors then Inr empty_envelope
      else if err_name error = ''AbortError'' then
        Inl (Error (''Request to '' @ url c @ '' timed out after '' @ show_int (timeout c) @ '' ms''))
      else Inl error)"

definition execute_on :: "platform \<Rightarrow> McpClient \<Rightarrow> bool \<Rightarrow> fetch_outcome \<Rightarrow> (js_error + json) \<times> McpClient" where
  "execute_on P c ignoreErrors out =
     (case execute_try P c ignoreErrors out of
        (Inl e, c') \<Rightarrow> (execute_catch c' ignoreErrors e, c')
      | (Inr v, c') \<Rightarrow> (Inr v, c'))"

text \<open>
  \<open>execute\<close> on the network: the request is built from the client, with the signal of a
  controller that \<open>setTimeout(() => controller.abort(), this.timeout)\<close> aborts; it is
  appended to the log of requests issued and answered by \<open>fetch\<close>.
\<close>

definition build_request :: "McpClient \<Rightarrow> JsonRpcRequest \<Rightarrow> http_request" where
  "build_request c payload =
     \<lparr> req_url = url c, req_headers = buildHeaders c, req_body = payload, req_signal = timeout c \<rparr>"

definition execute :: "platform \<Rightarrow> JsonRpcRequest \<Rightarrow> bool \<Rightarrow> McpClient \<times> http_request list
    \<Rightarrow> (js_error + json) \<times> McpClient \<times> http_request list" where
  "execute P payload ignoreErrors cw =
     (case cw of (c, log) \<Rightarrow>
        (let log' = log @ [build_request c payload] in
         case execute_on P c ignoreErrors (fetch P log') of
           (r, c') \<Rightarrow> (r, c', log')))"

definition sendInitializedNotification :: "platform \<Rightarrow> McpClient \<times> http_request list \<Rightarrow> McpClient \<times> http_request list" where
  "sendInitializedNotification P cw =
     (case execute P \<lparr> rpc_id = None, rpc_method = ''notifications/initialized'', rpc_params = None \<rparr> True cw of
        (r, cw') \<Rightarrow> cw')"

definition initialize_params :: json where
  "initialize_params =
     JObj [(''protocolVersion'', JStr ''2024-11-05''),
           (''capabilities'', JObj []),
           (''clientInfo'', JObj [(''name'', JStr ''mcp-ink-cli''), (''version'', JStr ''0.1.0'')])]"

definition initialize :: "platform \<Rightarrow> McpClient \<times> http_request list
    \<Rightarrow> (js_error + json) \<times> McpClient \<times> http_request list" where
  "initialize P cw =
     (case cw of (c, log) \<Rightarrow>
        (case nextRequestId c of (i, c1) \<Rightarrow>
           (case execute P \<lparr> rpc_id = Some i, rpc_method = ''initialize'', rpc_params = Some initialize_params \<rparr>
                   False (c1, log) of
              (Inl e, cw') \<Rightarrow> (Inl e, cw')
            | (Inr result, cw') \<Rightarrow> (Inr result, sendInitializedNotification P cw'))))"

definition ping :: "platform \<Rightarrow> McpClient \<times> http_request list
    \<Rightarrow> (js_error + json) \<times> McpClient \<times> http_request list" where
  "ping P cw =
     (case cw of (c, log) \<Rightarrow>
        (case nextRequestId c of (i, c1) \<Rightarrow>
           execute P \<lparr> rpc_id = Some i, rpc_method = ''ping'', rpc_params = None \<rparr> False (c1, log)))"

definition listTools :: "platform \<Rightarrow> McpClient \<times> http_request list
    \<Rightarrow> (js_error + json) \<times> McpClient \<times> http_request list" where
  "listTools P cw =
     (case cw of (c, log) \<Rightarrow>
        (case nextRequestId c of (i, c1) \<Rightarrow>
           execute P \<lparr> rpc_id = Some i, rpc_method = ''tools/list'', rpc_params = None \<rparr> False (c1, log)))"

definition callTool :: "platform \<Rightarrow> string \<Rightarrow> json \<Rightarrow> McpClient \<times> http_request list
    \<Rightarrow> (js_error + json) \<times> McpClient \<times> http_request list" where
  "callTool P name args cw =
     (case cw of (c, log) \<Rightarrow>
        (case nextRequestId c of (i, c1) \<Rightarrow>
           execute P \<lparr> rpc_id = Some i, rpc_method = ''tools/call'',
                       rpc_params = Some (JObj [(''name'', JStr name), (''arguments'', args)]) \<rparr>
                   False (c1, log)))"


section \<open>runtime/mcp.ts\<close>

text \<open>
  \<open>executeMcpCommand\<close>: a new client for the gateway, the handshake, then the command.
  The command is a string, since the agent passes whatever the model sent. The result is
  the pair of \<open>handshake\<close> and \<open>response\<close>.
\<close>

definition executeMcpCommand :: "platform \<Rightarrow> string \<Rightarrow> string \<Rightarrow> string option \<Rightarrow> string option
    \<Rightarrow> (string \<times> json) option \<Rightarrow> http_request list \<Rightarrow> (js_error + json \<times> json) \<times> http_request list" where
  "executeMcpCommand P command gwUrl gwToken beToken callOptions log =
     (let client = new_McpClient \<lparr> opt_url = gwUrl, opt_gatewayToken = gwToken,
                                   opt_backendToken = beToken, opt_timeout = None \<rparr> in
      case initialize P (client, log) of
        (Inl e, c, log1) \<Rightarrow> (Inl e, log1)
      | (Inr handshake, c, log1) \<Rightarrow>
          if command = ''ping'' then
            (case ping P (c, log1) of
               (Inl e, c2, log2) \<Rightarrow> (Inl e, log2)
             | (Inr response, c2, log2) \<Rightarrow> (Inr (handshake, response), log2))
          else if command = ''list'' then
            (case listTools P (c, log1) of
               (Inl e, c2, log2) \<Rightarrow> (Inl e, log2)
             | (Inr response, c2, log2) \<Rightarrow> (Inr (handshake, response), log2))
          else if command = ''call'' then
            (case callOptions of
               None \<Rightarrow> (Inl (Error ''Tool name and args are required for /call.''), log1)
             | Some (tool, args) \<Rightarrow>
                 (case callTool P tool args (c, log1) of
                    (Inl e, c2, log2) \<Rightarrow> (Inl e, log2)
                  | (Inr response, c2, log2) \<Rightarrow> (Inr (handshake, response), log2)))
          else (Inr (handshake, handshake), log1))"

definition dq :: string where
  "dq = [CHR 0x22]"

text \<open>
  \<open>formatMcpResult\<close>. Reading \<open>handshake.result\<close> throws when the handshake is \<open>null\<close>;
  the optional chaining stops at a \<open>result\<close> that is \<open>undefined\<close> or \<open>null\<close>.
\<close>

definition formatMcpResult :: "platform \<Rightarrow> string \<Rightarrow> json \<Rightarrow> json \<Rightarrow> string option \<Rightarrow> js_error + string list" where
  "formatMcpResult P command handshake response tool =
     (case get_prop handshake ''result'' of
        Inl e \<Rightarrow> Inl e
      | Inr res \<Rightarrow>
          (let sid = (case res of
                        None \<Rightarrow> None
                      | Some r \<Rightarrow> (case get_prop r ''sessionId'' of Inl e \<Rightarrow> None | Inr v \<Rightarrow> v));
               lines0 = (if truthy_opt sid then [''Session established: '' @ js_String (the sid)] else [])
           in Inr (lines0 @
                (if command = ''ping'' then [''Ping response:'', JSON_stringify2 P response]
                 else if command = ''list'' then [''Available tools:'', JSON_stringify2 P response]
                 else if command = ''call'' then
                   [''Tool '' @ dq @ (case tool of None \<Rightarrow> ''undefined'' | Some t \<Rightarrow> t) @ dq @ '' response:'',
                    JSON_stringify2 P response]
                 else if command = ''init'' then [''Initialization payload:'', JSON_stringify2 P handshake]
                 else []))))"

section \<open>commands/executor.ts\<close>

text \<open>
  The invocation that \<open>parseCommand\<close> returns, with the fields the executor reads and
  those the data model of the specification lists.
\<close>

datatype parsed_command =
    Help
  | Ping
  | ListTools
  | Init
  | Call (call_tool: string) (call_argsJson: "string option")
  | Task (task_category: string) (task_key: string) (task_rawArgs: "string list")
  | Unknown (unknown_message: string)

record TaskContext =
  ctx_gatewayUrl :: string
  ctx_gatewayBaseUrl :: string
  ctx_gatewayToken :: "string option"
  ctx_backendToken :: "string option"

record script_call =
  sc_category :: string
  sc_task :: string
  sc_values :: "(string \<times> string) list"
  sc_context :: TaskContext

record script_result =
  cmd_command :: string
  cmd_args :: "string list"
  stdout :: string
  stderr :: string
  exitCode :: "int option"

record command_result =
  lines :: "string list"
  isError :: "bool option"

section \<open>agent/agentRunner.ts and agent/tools.ts: the data\<close>

datatype role = User | Assistant | System

record AgentMessage =
  msg_role :: role
  msg_content :: string

text \<open>
  A content block of the provider's response: text, a tool request \<open>{id, name, input}\<close>,
  or a block of another type.
\<close>

record tool_use =
  tu_id :: string
  tu_name :: string
  tu_input :: "(string \<times> json) list"

datatype block =
    TextBlock string
  | ToolUse tool_use
  | OtherBlock string

datatype entry_content =
    TextContent string
  | BlocksContent "block list option"
  | ToolResult string string

record ConversationEntry =
  entry_role :: role
  entry_content :: entry_content

record create_params =
  cp_model :: string
  cp_system :: string
  cp_messages :: "ConversationEntry list"
  cp_max_tokens :: int
  cp_tools :: json

record provider_response =
  content :: "block list option"

text \<open>
  The collaborators of the executor and of the agent that are not part of the code at
  hand: the command parser, the task resolver, the script runner (given all runs so far,
  the current one last; it may reject), the provider's \<open>messages.create\<close> (given all
  calls so far, the current one last; it may reject) and the environment variable
  \<open>ANTHROPIC_MODEL\<close>.
\<close>

record collab =
  parseCommand :: "string \<Rightarrow> parsed_command"
  resolveTaskCommand :: "parsed_command \<Rightarrow> string + string \<times> (string \<times> string) list"
  runScriptTaskToString :: "script_call list \<Rightarrow> js_error + script_result"
  messages_create :: "create_params list \<Rightarrow> js_error + provider_response"
  ANTHROPIC_MODEL :: "string option"

text \<open>The effects so far: requests sent, scripts run, provider calls made.\<close>

record world =
  sent :: "http_request list"
  ran :: "script_call list"
  asked :: "create_params list"

section \<open>commands/executor.ts: the functions\<close>

definition sq :: string where
  "sq = [CHR 0x27]"

text \<open>
  The dash of \<open>overviewMessage\<close> is U+2014, outside the modelled range of code units; it
  stands here as the three bytes of its UTF-8 encoding. Nothing below depends on it.
\<close>

definition emdash :: string where
  "emdash = [CHR 0xE2, CHR 0x80, CHR 0x94]"

definition overviewMessage :: string where
  "overviewMessage = join ''\<newline>''
     [''Available commands:'',
      ''  /ping '' @ emdash @ '' check MCP gateway connectivity'',
      ''  /list '' @ emdash @ '' list MCP tools'',
      ''  /call tool=<name> args='' @ sq @ ''<json>'' @ sq @ '' '' @ emdash @ '' invoke a tool'',
      ''  /init '' @ emdash @ '' initialise a session'',
      ''  /service|/import|/user|/diagnostic ... '' @ emdash @ '' run registry scripts'',
      ''Use natural language when ANTHROPIC_API_KEY is set to let Claude decide which tools to call.'']"

definition executeMcp :: "platform \<Rightarrow> string \<Rightarrow> TaskContext \<Rightarrow> world \<Rightarrow> (js_error + command_result) \<times> world" where
  "executeMcp P command context w =
     (case executeMcpCommand P command (ctx_gatewayUrl context) (ctx_gatewayToken context)
             (ctx_backendToken context) None (sent w) of
        (Inl e, log) \<Rightarrow> (Inl e, w\<lparr>sent := log\<rparr>)
      | (Inr (handshake, response), log) \<Rightarrow>
          (case formatMcpResult P command handshake response None of
             Inl e \<Rightarrow> (Inl e, w\<lparr>sent := log\<rparr>)
           | Inr ls \<Rightarrow> (Inr \<lparr> lines = ls, isError = None \<rparr>, w\<lparr>sent := log\<rparr>)))"

definition executeCall :: "platform \<Rightarrow> string \<Rightarrow> string option \<Rightarrow> TaskContext \<Rightarrow> world
    \<Rightarrow> (js_error + command_result) \<times> world" where
  "executeCall P tool argsJson context w =
     (if tool = [] then (Inr \<lparr> lines = [''Tool name is required for /call.''], isError = Some True \<rparr>, w)
      else
        (case (if truthy_str argsJson then JSON_parse P (the argsJson) else Inr (JObj [])) of
           Inl m \<Rightarrow> (Inr \<lparr> lines = [''Invalid JSON for args: '' @ m], isError = Some True \<rparr>, w)
         | Inr args \<Rightarrow>
             (case executeMcpCommand P ''call'' (ctx_gatewayUrl context) (ctx_gatewayToken context)
                     (ctx_backendToken context) (Some (tool, args)) (sent w) of
                (Inl e, log) \<Rightarrow> (Inl e, w\<lparr>sent := log\<rparr>)
              | (Inr (handshake, response), log) \<Rightarrow>
                  (case formatMcpResult P ''call'' handshake response (Some tool) of
                     Inl e \<Rightarrow> (Inl e, w\<lparr>sent := log\<rparr>)
                   | Inr ls \<Rightarrow> (Inr \<lparr> lines = ls, isError = None \<rparr>, w\<lparr>sent := log\<rparr>)))))"

definition task_lines :: "script_result \<Rightarrow> string" where
  "task_lines result =
     join ''\<newline>\<newline>''
       (filter (\<lambda>line. line \<noteq> [] \<and> 0 < length (trim line))
          [''$ '' @ cmd_command result @ '' '' @ join '' '' (cmd_args result),
           trim (stdout result),
           (if stderr result \<noteq> [] then ''stderr:\<newline>'' @ trim (stderr result) else []),
           ''exitCode: '' @ show_int (case exitCode result of None \<Rightarrow> 0 | Some n \<Rightarrow> n)])"

definition executeSlashCommand :: "collab \<Rightarrow> platform \<Rightarrow> string \<Rightarrow> TaskContext \<Rightarrow> world
    \<Rightarrow> (js_error + command_result) \<times> world" where
  "executeSlashCommand C P input context w =
     (case parseCommand C input of
        Help \<Rightarrow> (Inr \<lparr> lines = [overviewMessage], isError = None \<rparr>, w)
      | Ping \<Rightarrow> executeMcp P ''ping'' context w
      | ListTools \<Rightarrow> executeMcp P ''list'' context w
      | Init \<Rightarrow> executeMcp P ''init'' context w
      | Call tool argsJson \<Rightarrow> executeCall P tool argsJson context w
      | Task category key rawArgs \<Rightarrow>
          (case resolveTaskCommand C (Task category key rawArgs) of
             Inl err \<Rightarrow> (Inr \<lparr> lines = [err], isError = Some True \<rparr>, w)
           | Inr (task, vals) \<Rightarrow>
               (let w1 = w\<lparr>ran := ran w @ [\<lparr> sc_category = category, sc_task = task,
                                                 sc_values = vals, sc_context = context \<rparr>]\<rparr> in
                case runScriptTaskToString C (ran w1) of
                  Inl e \<Rightarrow> (Inl e, w1)
                | Inr result \<Rightarrow> (Inr \<lparr> lines = [task_lines result], isError = None \<rparr>, w1)))
      | Unknown message \<Rightarrow> (Inr \<lparr> lines = [message], isError = Some True \<rparr>, w))"

section \<open>agent/tools.ts\<close>

definition anthropicTools :: json where
  "anthropicTools =
     JArr [
       JObj [(''name'', JStr ''mcp_command''),
             (''description'', JStr ''Call MCP gateway commands (ping, list, call, init).''),
             (''input_schema'',
               JObj [(''type'', JStr ''object''),
                     (''properties'',
                       JObj [(''command'',
                               JObj [(''type'', JStr ''string''),
                                     (''enum'', JArr [JStr ''ping'', JStr ''list'', JStr ''call'', JStr ''init'']),
                                     (''description'', JStr ''Which MCP command to execute.'')]),
                             (''tool'',
                               JObj [(''type'', JStr ''string''),
                                     (''description'', JStr ''Tool name for the call command'')]),
                             (''args'',
                               JObj [(''type'', JStr ''object''),
                                     (''description'', JStr ''JSON arguments for the tool.'')])]),
                     (''required'', JArr [JStr ''command''])])],
       JObj [(''name'', JStr ''registry_task''),
             (''description'', JStr ''Run service management, imports, user management, or diagnostics tasks.''),
             (''input_schema'',
               JObj [(''type'', JStr ''object''),
                     (''properties'',
                       JObj [(''command'',
                               JObj [(''type'', JStr ''string''),
                                     (''description'',
                                       JStr ''Slash command matching the CLI syntax, e.g. /service add configPath=...'')])]),
                     (''required'', JArr [JStr ''command''])])]]"

datatype invocation_type = McpInvocation | TaskInvocation | UnknownInvocation

record AgentToolInvocation =
  inv_type :: invocation_type
  inv_name :: string
  inv_input :: "(string \<times> json) list"

definition mapToolCall :: "tool_use \<Rightarrow> AgentToolInvocation" where
  "mapToolCall tool =
     (if tu_name tool = ''mcp_command'' then
        \<lparr> inv_type = McpInvocation, inv_name = tu_name tool, inv_input = tu_input tool \<rparr>
      else if tu_name tool = ''registry_task'' then
        \<lparr> inv_type = TaskInvocation, inv_name = tu_name tool, inv_input = tu_input tool \<rparr>
      else \<lparr> inv_type = UnknownInvocation, inv_name = tu_name tool, inv_input = tu_input tool \<rparr>)"

record tool_result =
  res_output :: string
  res_isError :: "bool option"

text \<open>\<open>String(v || "")\<close> for a property \<open>v\<close> that may be \<open>undefined\<close>.\<close>

definition String_or_empty :: "json option \<Rightarrow> string" where
  "String_or_empty v = (if truthy_opt v then js_String (the v) else [])"

definition executeMappedTool :: "collab \<Rightarrow> platform \<Rightarrow> AgentToolInvocation \<Rightarrow> string \<Rightarrow> TaskContext \<Rightarrow> world
    \<Rightarrow> (js_error + tool_result) \<times> world" where
  "executeMappedTool C P invocation gwUrl context w =
     (case inv_type invocation of
        McpInvocation \<Rightarrow>
          (let command = String_or_empty (lookup (inv_input invocation) ''command'') in
           if command = [] then (Inr \<lparr> res_output = ''Missing command field'', res_isError = Some True \<rparr>, w)
           else
             (let toolName = (if truthy_opt (lookup (inv_input invocation) ''tool'')
                              then Some (js_String (the (lookup (inv_input invocation) ''tool''))) else None);
                  args = (if truthy_opt (lookup (inv_input invocation) ''args'')
                             \<and> typeof_object (the (lookup (inv_input invocation) ''args''))
                          then the (lookup (inv_input invocation) ''args'') else JObj [])
              in case executeMcpCommand P command gwUrl (ctx_gatewayToken context) (ctx_backendToken context)
                        (if truthy_str toolName then Some (the toolName, args) else None) (sent w) of
                   (Inr (handshake, response), log) \<Rightarrow>
                     (Inr \<lparr> res_output = JSON_stringify2 P (JObj [(''handshake'', handshake), (''response'', response)]),
                            res_isError = None \<rparr>, w\<lparr>sent := log\<rparr>)
                 | (Inl error, log) \<Rightarrow>
                     (Inr \<lparr> res_output = err_message error, res_isError = Some True \<rparr>, w\<lparr>sent := log\<rparr>)))
      | TaskInvocation \<Rightarrow>
          (let commandText0 = trim (String_or_empty (lookup (inv_input invocation) ''command''));
               commandText = (if \<not> startsWith commandText0 ''/'' then ''/'' @ commandText0 else commandText0)
           in case executeSlashCommand C P commandText context w of
                (Inl e, w') \<Rightarrow> (Inl e, w')
              | (Inr result, w') \<Rightarrow>
                  (Inr \<lparr> res_output = join ''\<newline>'' (lines result), res_isError = isError result \<rparr>, w'))
      | UnknownInvocation \<Rightarrow>
          (Inr \<lparr> res_output = ''Unknown tool invocation: '' @ inv_name invocation, res_isError = Some True \<rparr>, w))"

definition buildTaskContext :: "string \<Rightarrow> string \<Rightarrow> string option \<Rightarrow> string option \<Rightarrow> TaskContext" where
  "buildTaskContext gwUrl baseUrl gwToken beToken =
     \<lparr> ctx_gatewayUrl = gwUrl, ctx_gatewayBaseUrl = baseUrl,
       ctx_gatewayToken = gwToken, ctx_backendToken = beToken \<rparr>"

section \<open>agent/agentRunner.ts\<close>

record AgentConfig =
  cfg_gatewayUrl :: string
  cfg_gatewayBaseUrl :: string
  cfg_gatewayToken :: "string option"
  cfg_backendToken :: "string option"
  cfg_model :: "string option"

record tool_output =
  to_name :: string
  to_output :: string
  to_isError :: "bool option"

record AgentResult =
  messages :: "AgentMessage list"
  toolOutputs :: "tool_output list"

definition DEFAULT_MODEL :: "collab \<Rightarrow> string" where
  "DEFAULT_MODEL C = (case ANTHROPIC_MODEL C of None \<Rightarrow> ''claude-haiku-4-5'' | Some m \<Rightarrow> m)"

definition buildSystemPrompt :: string where
  "buildSystemPrompt = join ''\<newline>''
     [''You are an MCP Registry assistant with direct access to CLI tools.'',
      [],
      ''Tools available:'',
      ''- mcp_command: call MCP gateway commands (ping, list, call, init)'',
      ''- registry_task: invoke service management, imports, user management, diagnostics via slash commands.'',
      [],
      ''Behaviours:'',
      ''- Use tools whenever the user asks for an action.'',
      ''- Always prefer precise tool usage with correct parameters.'',
      ''- Summarise results for the user after tool invocations.'',
      ''- Never expose secrets or raw environment details.'']"

definition tool_calls_of :: "block list \<Rightarrow> tool_use list" where
  "tool_calls_of bs = concat (map (\<lambda>b. case b of ToolUse t \<Rightarrow> [t] | _ \<Rightarrow> []) bs)"

definition text_blocks_of :: "block list \<Rightarrow> string list" where
  "text_blocks_of bs = concat (map (\<lambda>b. case b of TextBlock t \<Rightarrow> [t] | _ \<Rightarrow> []) bs)"

text \<open>The loop \<open>for (const call of toolCalls)\<close>; a rejected tool execution leaves it.\<close>

fun run_tool_calls :: "collab \<Rightarrow> platform \<Rightarrow> string \<Rightarrow> TaskContext \<Rightarrow> tool_use list
    \<Rightarrow> ConversationEntry list \<Rightarrow> tool_output list \<Rightarrow> world
    \<Rightarrow> (js_error + ConversationEntry list \<times> tool_output list) \<times> world" where
  "run_tool_calls C P gwUrl context [] conversation outs w = (Inr (conversation, outs), w)"
| "run_tool_calls C P gwUrl context (call # calls) conversation outs w =
     (case executeMappedTool C P (mapToolCall call) gwUrl context w of
        (Inl e, w') \<Rightarrow> (Inl e, w')
      | (Inr result, w') \<Rightarrow>
          run_tool_calls C P gwUrl context calls
            (conversation @ [\<lparr> entry_role = User, entry_content = ToolResult (tu_id call) (res_output result) \<rparr>])
            (outs @ [\<lparr> to_name = tu_name call, to_output = res_output result, to_isError = res_isError result \<rparr>])
            w')"

definition limit_message :: AgentMessage where
  "limit_message = \<lparr> msg_role = Assistant, msg_content = ''Reached tool usage limit without final response.'' \<rparr>"

text \<open>What follows the \<open>while\<close> loop.\<close>

definition after_loop :: "nat \<Rightarrow> AgentMessage list \<Rightarrow> tool_output list \<Rightarrow> AgentResult" where
  "after_loop toolIteration finalMessages outs =
     \<lparr> messages = (if 5 \<le> toolIteration then finalMessages @ [limit_message] else finalMessages),
       toolOutputs = outs \<rparr>"

text \<open>The \<open>while (toolIteration < 5)\<close> loop, from the state at the head of an iteration.\<close>

function agent_loop :: "collab \<Rightarrow> platform \<Rightarrow> AgentConfig \<Rightarrow> TaskContext \<Rightarrow> string \<Rightarrow> nat
    \<Rightarrow> ConversationEntry list \<Rightarrow> AgentMessage list \<Rightarrow> tool_output list \<Rightarrow> world
    \<Rightarrow> (js_error + AgentResult) \<times> world" where
  "agent_loop C P config context systemPrompt toolIteration conversation finalMessages outs w =
     (if toolIteration < 5 then
        (let w1 = w\<lparr>asked := asked w @
                     [\<lparr> cp_model = (case cfg_model config of None \<Rightarrow> DEFAULT_MODEL C | Some m \<Rightarrow> m),
                        cp_system = systemPrompt,
                        cp_messages = conversation,
                        cp_max_tokens = 1024,
                        cp_tools = anthropicTools \<rparr>]\<rparr> in
         case messages_create C (asked w1) of
           Inl e \<Rightarrow> (Inl e, w1)
         | Inr response \<Rightarrow>
             (let outputBlocks = (case content response of None \<Rightarrow> [] | Some bs \<Rightarrow> bs);
                  toolCalls = tool_calls_of outputBlocks;
                  textBlocks = text_blocks_of outputBlocks
              in if toolCalls = [] then
                   (Inr (after_loop toolIteration
                           (finalMessages @ [\<lparr> msg_role = Assistant, msg_content = join ''\<newline>'' textBlocks \<rparr>])
                           outs), w1)
                 else
                   (case run_tool_calls C P (cfg_gatewayUrl config) context toolCalls
                           (conversation @ [\<lparr> entry_role = Assistant, entry_content = BlocksContent (content response) \<rparr>])
                           outs w1 of
                      (Inl e, w2) \<Rightarrow> (Inl e, w2)
                    | (Inr (conversation2, outs2), w2) \<Rightarrow>
                        agent_loop C P config context systemPrompt (toolIteration + 1)
                          conversation2 finalMessages outs2 w2)))
      else (Inr (after_loop toolIteration finalMessages outs), w))"
  by pat_completeness auto
termination
  by (relation "measure (\<lambda>(C, P, config, context, systemPrompt, toolIteration, rest). 5 - toolIteration)") auto

declare agent_loop.simps [simp del]

definition runAgentTurn :: "collab \<Rightarrow> platform \<Rightarrow> AgentMessage list \<Rightarrow> AgentConfig \<Rightarrow> world
    \<Rightarrow> (js_error + AgentResult) \<times> world" where
  "runAgentTurn C P history config w =
     (let systemMessages = map msg_content (filter (\<lambda>msg. msg_role msg = System) history);
          systemPrompt = join ''\<newline>\<newline>'' (buildSystemPrompt # systemMessages);
          msgs = map (\<lambda>msg. \<lparr> entry_role = msg_role msg, entry_content = TextContent (msg_content msg) \<rparr>)
                   (filter (\<lambda>msg. msg_role msg = User \<or> msg_role msg = Assistant) history);
          context = buildTaskContext (cfg_gatewayUrl config) (cfg_gatewayBaseUrl config)
                      (cfg_gatewayToken config) (cfg_backendToken config);
          conversation =
            (if length msgs = 0 then
               msgs @ [\<lparr> entry_role = User,
                          entry_content = TextContent
                            (let t = join ''\<newline>'' (map msg_content (filter (\<lambda>msg. msg_role msg \<noteq> System) history))
                             in if t \<noteq> [] then t else ''Hello.'') \<rparr>]
             else msgs)
      in agent_loop C P config context systemPrompt 0 conversation [] [] w)"

text \<open>
  The request of the first provider call of \<open>runAgentTurn\<close>: what the code has built
  from the history and the configuration when it enters the loop.
\<close>

definition first_request :: "collab \<Rightarrow> AgentMessage list \<Rightarrow> AgentConfig \<Rightarrow> create_params" where
  "first_request C history config =
     (let systemMessages = map msg_content (filter (\<lambda>msg. msg_role msg = System) history);
          msgs = map (\<lambda>msg. \<lparr> entry_role = msg_role msg, entry_content = TextContent (msg_content msg) \<rparr>)
                   (filter (\<lambda>msg. msg_role msg = User \<or> msg_role msg = Assistant) history)
      in \<lparr> cp_model = (case cfg_model config of None \<Rightarrow> DEFAULT_MODEL C | Some m \<Rightarrow> m),
           cp_system = join ''\<newline>\<newline>'' (buildSystemPrompt # systemMessages),
           cp_messages =
             (if length msgs = 0 then
                msgs @ [\<lparr> entry_role = User,
                           entry_content = TextContent
                             (let t = join ''\<newline>'' (map msg_content (filter (\<lambda>msg. msg_role msg \<noteq> System) history))
                              in if t \<noteq> [] then t else ''Hello.'') \<rparr>]
              else msgs),
           cp_max_tokens = 1024,
           cp_tools = anthropicTools \<rparr>)"

section \<open>A client instance over its lifetime\<close>

text \<open>
  The public methods of a client, called in any order on one instance. The results are
  dropped: what matters here is the client and the requests it has issued.
\<close>

datatype client_op = OpInitialize | OpPing | OpListTools | OpCallTool string json

definition apply_op :: "platform \<Rightarrow> client_op \<Rightarrow> McpClient \<times> http_request list \<Rightarrow> McpClient \<times> http_request list" where
  "apply_op P op cw =
     snd (case op of
            OpInitialize \<Rightarrow> initialize P cw
          | OpPing \<Rightarrow> ping P cw
          | OpListTools \<Rightarrow> listTools P cw
          | OpCallTool name args \<Rightarrow> callTool P name args cw)"

fun run_ops :: "platform \<Rightarrow> client_op list \<Rightarrow> McpClient \<times> http_request list \<Rightarrow> McpClient \<times> http_request list" where
  "run_ops P [] cw = cw"
| "run_ops P (op # ops) cw = run_ops P ops (apply_op P op cw)"

section \<open>The properties, in the words of the specification\<close>

text \<open>
  The client talks to \<open>u\<close>: it holds \<open>u\<close> as its URL and every request of the log from
  index \<open>k\<close> on went to \<open>u\<close>.
\<close>

definition url_inv :: "string \<Rightarrow> nat \<Rightarrow> McpClient \<times> http_request list \<Rightarrow> bool" where
  "url_inv u k cw = (case cw of (c, log) \<Rightarrow> url c = u \<and> (\<forall>r \<in> set (drop k log). req_url r = u))"

text \<open>The value of the session header of a request, if it has one.\<close>

definition session_header :: "http_request \<Rightarrow> string option" where
  "session_header r = map_of (req_headers r) ''mcp-session-id''"

text \<open>
  The session identifier known after an exchange: the one the response carries in its
  session header, whatever its status, or else the one known before.
\<close>

definition session_of_outcome :: "fetch_outcome \<Rightarrow> string option \<Rightarrow> string option" where
  "session_of_outcome out old =
     (case out of
        FetchRejected e \<Rightarrow> old
      | FetchResolved r \<Rightarrow> (case headers_get r ''mcp-session-id'' of Some s \<Rightarrow> Some s | None \<Rightarrow> old))"

text \<open>
  The session header of the most recent response that carried one, among the responses to
  the requests \<open>k, ..., n - 1\<close> of the log. The response to request \<open>i\<close> is what \<open>fetch\<close>
  answers to the first \<open>i + 1\<close> requests.
\<close>

fun latest_session :: "platform \<Rightarrow> http_request list \<Rightarrow> nat \<Rightarrow> nat \<Rightarrow> string option" where
  "latest_session P log k 0 = None"
| "latest_session P log k (Suc n) =
     (if n < k then None
      else session_of_outcome (fetch P (take (Suc n) log)) (latest_session P log k n))"

definition nonempty_session :: "string option \<Rightarrow> string option" where
  "nonempty_session v = (case v of None \<Rightarrow> None | Some s \<Rightarrow> if s = [] then None else Some s)"

text \<open>
  The invariant of a client and the log: the client holds the latest session identifier,
  and each request from index \<open>k\<close> on carried the latest one known when it was sent.
\<close>

definition session_inv :: "platform \<Rightarrow> nat \<Rightarrow> McpClient \<times> http_request list \<Rightarrow> bool" where
  "session_inv P k cw =
     (case cw of (c, log) \<Rightarrow>
        k \<le> length log
        \<and> sessionId c = latest_session P log k (length log)
        \<and> (\<forall>j. k \<le> j \<and> j < length log \<longrightarrow>
              session_header (log ! j) = nonempty_session (latest_session P log k j)))"

text \<open>
  The payloads of the \<open>data:\<close> lines of an event stream, in order, and the first of them
  that parses as JSON.
\<close>

definition data_payloads :: "string \<Rightarrow> string list" where
  "data_payloads raw = map (\<lambda>l. trim (drop 5 l)) (filter (\<lambda>l. prefix ''data:'' l) (split_lines raw))"

fun first_parsed :: "platform \<Rightarrow> string list \<Rightarrow> json option" where
  "first_parsed P [] = None"
| "first_parsed P (p # ps) = (case JSON_parse P p of Inr v \<Rightarrow> Some v | Inl m \<Rightarrow> first_parsed P ps)"

text \<open>
  The \<open>error\<close> member of a body, when the body is JSON text for an object whose \<open>error\<close>
  is an object or an array.
\<close>

definition error_object :: "platform \<Rightarrow> string \<Rightarrow> json option" where
  "error_object P body =
     (case JSON_parse P body of
        Inr (JObj kvs) \<Rightarrow>
          (case lookup kvs ''error'' of
             Some (JObj e) \<Rightarrow> Some (JObj e)
           | Some (JArr e) \<Rightarrow> Some (JArr e)
           | _ \<Rightarrow> None)
      | _ \<Rightarrow> None)"

text \<open>The \<open>message\<close> member of an error object, when it is neither absent nor \<open>null\<close>.\<close>

definition message_of :: "json \<Rightarrow> json option" where
  "message_of e =
     (case e of
        JObj kvs \<Rightarrow> (case lookup kvs ''message'' of Some m \<Rightarrow> if m = JNull then None else Some m | None \<Rightarrow> None)
      | _ \<Rightarrow> None)"

text \<open>
  An outcome of \<open>fetch\<close> in which the abort signal fired: \<open>fetch\<close> itself or the reading
  of the body rejected with an error named \<open>AbortError\<close>.
\<close>

definition aborted :: "fetch_outcome \<Rightarrow> bool" where
  "aborted out =
     (case out of
        FetchRejected e \<Rightarrow> err_name e = ''AbortError''
      | FetchResolved r \<Rightarrow> (case resp_text r of Inl e \<Rightarrow> err_name e = ''AbortError'' | Inr b \<Rightarrow> False))"

section \<open>Concrete inputs\<close>

definition body_ok :: string where
  \<open>body_ok = ''{"jsonrpc":"2.0","result":{"ok":true}}''\<close>

definition body_forbidden :: string where
  \<open>body_forbidden = ''{"error":{"message":"forbidden"}}''\<close>

definition body_code :: string where
  \<open>body_code = ''{"error": {"code": 1}}''\<close>

text \<open>
  An event stream with CR LF line ends whose first \<open>data:\<close> line is no JSON and whose
  second one is, and one whose only \<open>data:\<close> line is no JSON.
\<close>

definition sse_two_data :: string where
  "sse_two_data =
     ''event: message'' @ [CHR 0x0D, CHR 0x0A] @ ''data: not json'' @ [CHR 0x0D, CHR 0x0A]
       @ ''data: '' @ body_ok @ ''\<newline>\<newline>''"

definition sse_bad_data :: string where
  "sse_bad_data = ''data: not json\<newline>\<newline>''"

text \<open>
  \<open>JSON.parse\<close> and \<open>JSON.stringify\<close> on the texts and values used below: they agree
  with the platform on the three texts listed, on texts that are no JSON and on the one
  value listed, and nothing else is asked of them.
\<close>

definition sample_parse :: "string \<Rightarrow> string + json" where
  "sample_parse s =
     (if s = body_ok then Inr (JObj [(''jsonrpc'', JStr ''2.0''), (''result'', JObj [(''ok'', JBool True)])])
      else if s = body_forbidden then Inr (JObj [(''error'', JObj [(''message'', JStr ''forbidden'')])])
      else if s = body_code then Inr (JObj [(''error'', JObj [(''code'', JNum 1)])])
      else Inl ''Unexpected token'')"

definition sample_stringify :: "json \<Rightarrow> string" where
  \<open>sample_stringify v = (if v = JObj [(''code'', JNum 1)] then ''{"code":1}'' else [])\<close>

definition sample_platform :: "(http_request list \<Rightarrow> fetch_outcome) \<Rightarrow> platform" where
  "sample_platform f = \<lparr> JSON_parse = sample_parse, JSON_stringify = sample_stringify,
                          JSON_stringify2 = sample_stringify, fetch = f \<rparr>"

definition sample_options :: McpClientOptions where
  "sample_options = \<lparr> opt_url = ''http://localhost/mcpgw/mcp/'', opt_gatewayToken = None,
                       opt_backendToken = None, opt_timeout = None \<rparr>"

definition no_slash_options :: McpClientOptions where
  "no_slash_options = \<lparr> opt_url = ''http://localhost/mcpgw/mcp'', opt_gatewayToken = None,
                         opt_backendToken = None, opt_timeout = Some 5000 \<rparr>"

definition sample_client :: McpClient where
  "sample_client = new_McpClient sample_options"

definition response_with :: "int \<Rightarrow> string \<Rightarrow> (string \<times> string) list \<Rightarrow> string \<Rightarrow> http_response" where
  "response_with st stText hs body = \<lparr> status = st, statusText = stText, resp_headers = hs, resp_text = Inr body \<rparr>"

text \<open>A server that sets a session on the first response and an empty one on the second.\<close>

definition session_fetch :: "http_request list \<Rightarrow> fetch_outcome" where
  "session_fetch log =
     FetchResolved (response_with 200 ''OK''
       (if length log = 1 then [(''mcp-session-id'', ''abc'')]
        else if length log = 2 then [(''mcp-session-id'', [])]
        else []) [])"

text \<open>A server that sets a session on the first response and another one on the second.\<close>

definition rotating_fetch :: "http_request list \<Rightarrow> fetch_outcome" where
  "rotating_fetch log =
     FetchResolved (response_with 200 ''OK''
       (if length log = 1 then [(''mcp-session-id'', ''abc'')]
        else if length log = 2 then [(''mcp-session-id'', ''xyz'')]
        else []) [])"

text \<open>A gateway that cannot be reached, and one that answers every request with an empty 200.\<close>

definition unreachable_fetch :: "http_request list \<Rightarrow> fetch_outcome" where
  "unreachable_fetch log = FetchRejected (JsError ''TypeError'' ''fetch failed'')"

definition empty_ok_fetch :: "http_request list \<Rightarrow> fetch_outcome" where
  "empty_ok_fetch log = FetchResolved (response_with 200 ''OK'' [] [])"

text \<open>A server that answers the first request with JSON and cannot be reached afterwards.\<close>

definition ok_then_unreachable_fetch :: "http_request list \<Rightarrow> fetch_outcome" where
  "ok_then_unreachable_fetch log =
     (if length log = 1
      then FetchResolved (response_with 200 ''OK'' [(''content-type'', ''application/json'')] body_ok)
      else FetchRejected (JsError ''TypeError'' ''fetch failed''))"

text \<open>
  A server that takes six seconds for the head of its first answer and 20 milliseconds
  for the later ones; every answer is the same JSON.
\<close>

definition slow_then_fast :: "http_request list \<Rightarrow> exchange" where
  "slow_then_fast log =
     (if length log = 1
      then \<lparr> settles_at = 6000, body_at = 6100,
             unaborted = FetchResolved (response_with 200 ''OK'' [(''content-type'', ''application/json'')] body_ok) \<rparr>
      else \<lparr> settles_at = 20, body_at = 25,
             unaborted = FetchResolved (response_with 200 ''OK'' [(''content-type'', ''application/json'')] body_ok) \<rparr>)"

definition five_second_options :: McpClientOptions where
  "five_second_options = \<lparr> opt_url = ''http://localhost/mcpgw/mcp'', opt_gatewayToken = None,
                            opt_backendToken = None, opt_timeout = Some 5000 \<rparr>"

text \<open>
  Modelled from the spec: \<open>parseCommand\<close> of \<open>chat/commandParser.ts\<close>, which is not among
  the sources, on the bare commands \<open>help\<close>, \<open>ping\<close>, \<open>list\<close> and \<open>init\<close>, with or
  without the command prefix. Every other input is answered as unknown here; the call and
  task forms are left to the parameter \<^term>\<open>parseCommand\<close>.
\<close>

definition parseCommand_bare :: "string \<Rightarrow> parsed_command" where
  "parseCommand_bare input =
     (let t = trim input;
          word = (if startsWith t ''/'' then drop 1 t else t)
      in if word = ''help'' then Help
         else if word = ''ping'' then Ping
         else if word = ''list'' then ListTools
         else if word = ''init'' then Init
         else Unknown (''Unknown command: '' @ input))"

definition sample_collab :: "(create_params list \<Rightarrow> js_error + provider_response) \<Rightarrow> collab" where
  "sample_collab create =
     \<lparr> parseCommand = parseCommand_bare,
       resolveTaskCommand = (\<lambda>p. Inl ''Unknown task''),
       runScriptTaskToString = (\<lambda>runs. Inl (Error ''no script runner'')),
       messages_create = create,
       ANTHROPIC_MODEL = None \<rparr>"

text \<open>A provider that asks for \<open>registry_task\<close> with the command \<open>ping\<close> on every turn.\<close>

definition task_ping_call :: tool_use where
  "task_ping_call = \<lparr> tu_id = ''toolu_1'', tu_name = ''registry_task'', tu_input = [(''command'', JStr ''ping'')] \<rparr>"

definition mcp_ping_call :: tool_use where
  "mcp_ping_call = \<lparr> tu_id = ''toolu_2'', tu_name = ''mcp_command'', tu_input = [(''command'', JStr ''ping'')] \<rparr>"

definition mcp_call_no_tool :: tool_use where
  "mcp_call_no_tool = \<lparr> tu_id = ''toolu_3'', tu_name = ''mcp_command'', tu_input = [(''command'', JStr ''call'')] \<rparr>"

definition always_task_ping :: "create_params list \<Rightarrow> js_error + provider_response" where
  "always_task_ping calls = Inr \<lparr> content = Some [ToolUse task_ping_call] \<rparr>"

text \<open>A provider that answers with one text block and no tool request.\<close>

definition one_text :: "create_params list \<Rightarrow> js_error + provider_response" where
  "one_text calls = Inr \<lparr> content = Some [OtherBlock ''thinking'', TextBlock ''The gateway is up.''] \<rparr>"

text \<open>A provider that answers with two text blocks and no tool request.\<close>

definition two_texts :: "create_params list \<Rightarrow> js_error + provider_response" where
  "two_texts calls = Inr \<lparr> content = Some [TextBlock ''Hello'', TextBlock ''world''] \<rparr>"

text \<open>
  A provider whose answer depends on the request: two text blocks when the request has
  messages and allows 1024 tokens, a rejection otherwise.
\<close>

definition texts_on_request :: "create_params list \<Rightarrow> js_error + provider_response" where
  "texts_on_request calls =
     (case rev calls of
        [] \<Rightarrow> Inl (Error ''no request'')
      | p # earlier \<Rightarrow>
          if cp_messages p \<noteq> [] \<and> cp_max_tokens p = 1024
          then Inr \<lparr> content = Some [TextBlock ''Hello'', TextBlock ''world''] \<rparr>
          else Inl (Error ''bad request''))"

definition sample_config :: AgentConfig where
  "sample_config = \<lparr> cfg_gatewayUrl = ''http://localhost/mcpgw/mcp'', cfg_gatewayBaseUrl = ''http://localhost/'',
                      cfg_gatewayToken = None, cfg_backendToken = None, cfg_model = None \<rparr>"

definition sample_context :: TaskContext where
  "sample_context = buildTaskContext ''http://localhost/mcpgw/mcp'' ''http://localhost/'' None None"

definition sample_history :: "AgentMessage list" where
  "sample_history = [\<lparr> msg_role = User, msg_content = ''is the gateway up?'' \<rparr>]"

definition empty_world :: world where
  "empty_world = \<lparr> sent = [], ran = [], asked = [] \<rparr>"

section \<open>The client and the log after a request\<close>

lemma execute_try_client:
  "snd (execute_try P c ign out) = c\<lparr>sessionId := session_of_outcome out (sessionId c)\<rparr>"
  by (auto simp: execute_try_def session_of_outcome_def Let_def split: fetch_outcome.splits sum.splits option.splits)

lemma execute_on_client:
  "snd (execute_on P c ign out) = c\<lparr>sessionId := session_of_outcome out (sessionId c)\<rparr>"
  using execute_try_client [of P c ign out]
  by (auto simp: execute_on_def split: prod.splits sum.splits)

lemma execute_state:
  "snd (execute P payload ign (c, log)) =
     (c\<lparr>sessionId := session_of_outcome (fetch P (log @ [build_request c payload])) (sessionId c)\<rparr>,
      log @ [build_request c payload])"
  using execute_on_client [of P c ign "fetch P (log @ [build_request c payload])"]
  by (auto simp: execute_def Let_def split: prod.splits)

lemma execute_result:
  "fst (execute P payload ign (c, log)) = fst (execute_on P c ign (fetch P (log @ [build_request c payload])))"
  by (auto simp: execute_def Let_def split: prod.splits)

text \<open>
  Each public method is one request with a fresh request id; \<open>initialize\<close> adds the
  notification when the request succeeds. An invariant of \<open>execute\<close> that does not depend
  on the request id is therefore an invariant of every method.
\<close>

lemma apply_op_invariant:
  assumes step: "\<And>c log payload ign. I (c, log) \<Longrightarrow> I (snd (execute P payload ign (c, log)))"
    and rid: "\<And>c log i. I (c, log) \<Longrightarrow> I (c\<lparr>requestId := i\<rparr>, log)"
    and inv: "I cw"
  shows "I (apply_op P op cw)"
proof -
  obtain c log where cw: "cw = (c, log)" by (cases cw)
  have one: "I (snd (execute P payload ign (c\<lparr>requestId := i\<rparr>, log)))" for payload ign i
    using inv cw by (intro step rid) simp
  show ?thesis
  proof (cases op)
    case OpInitialize
    let ?e = "execute P \<lparr> rpc_id = Some (requestId c + 1), rpc_method = ''initialize'',
                           rpc_params = Some initialize_params \<rparr> False (c\<lparr>requestId := requestId c + 1\<rparr>, log)"
    obtain r c2 log2 where e: "?e = (r, c2, log2)" by (cases ?e)
    have "I (snd ?e)" by (rule one)
    with e have inv2: "I (c2, log2)" by simp
    show ?thesis
    proof (cases r)
      case (Inl err)
      with inv2 e cw OpInitialize show ?thesis
        by (simp add: apply_op_def initialize_def nextRequestId_def)
    next
      case (Inr res)
      have "I (snd (execute P \<lparr> rpc_id = None, rpc_method = ''notifications/initialized'', rpc_params = None \<rparr>
                     True (c2, log2)))"
        by (rule step [OF inv2])
      with Inr e cw OpInitialize show ?thesis
        by (auto simp: apply_op_def initialize_def nextRequestId_def sendInitializedNotification_def
                 split: prod.splits)
    qed
  next
    case OpPing
    with one cw show ?thesis by (simp add: apply_op_def ping_def nextRequestId_def)
  next
    case OpListTools
    with one cw show ?thesis by (simp add: apply_op_def listTools_def nextRequestId_def)
  next
    case (OpCallTool name args)
    with one cw show ?thesis by (simp add: apply_op_def callTool_def nextRequestId_def)
  qed
qed

lemma run_ops_invariant:
  assumes step: "\<And>c log payload ign. I (c, log) \<Longrightarrow> I (snd (execute P payload ign (c, log)))"
    and rid: "\<And>c log i. I (c, log) \<Longrightarrow> I (c\<lparr>requestId := i\<rparr>, log)"
  shows "I cw \<Longrightarrow> I (run_ops P ops cw)"
proof (induction ops arbitrary: cw)
  case Nil
  then show ?case by simp
next
  case (Cons op ops)
  have "I (apply_op P op cw)"
    by (rule apply_op_invariant [OF step rid Cons.prems])
  from Cons.IH [OF this] show ?case by simp
qed

section \<open>The URL of a client\<close>

lemma url_inv_execute:
  assumes "url_inv u k (c, log)"
  shows "url_inv u k (snd (execute P payload ign (c, log)))"
proof -
  have "set (drop (k - length log) [build_request c payload]) \<subseteq> {build_request c payload}"
    using set_drop_subset [of "k - length log" "[build_request c payload]"] by simp
  with assms show ?thesis
    by (auto simp: execute_state url_inv_def build_request_def)
qed

lemma url_inv_run_ops:
  "url_inv u k cw \<Longrightarrow> url_inv u k (run_ops P ops cw)"
  by (rule run_ops_invariant [where I = "url_inv u k", OF url_inv_execute])
     (simp_all add: url_inv_def)

text \<open>
  C10. The URL of a client is the URL of the options without one trailing slash, if there
  is one: a URL \<open>u/\<close> gives \<open>u\<close> (so \<open>v//\<close> gives \<open>v/\<close>) and a URL that does not end in a
  slash is kept. Whatever methods are called on the instance, the client keeps this URL
  and every request it issues goes to it.
\<close>

theorem client_url_fixed:
  "(\<forall>u. opt_url options = u @ ''/'' \<longrightarrow> url (new_McpClient options) = u)
   \<and> (\<not> suffix ''/'' (opt_url options) \<longrightarrow> url (new_McpClient options) = opt_url options)
   \<and> url (fst (run_ops P ops (new_McpClient options, log0))) = url (new_McpClient options)
   \<and> (\<forall>r \<in> set (drop (length log0) (snd (run_ops P ops (new_McpClient options, log0)))).
         req_url r = url (new_McpClient options))"
proof -
  have a: "url (new_McpClient options) = u" if "opt_url options = u @ ''/''" for u
    using that by (simp add: new_McpClient_def strip_trailing_slash_def)
  have b: "url (new_McpClient options) = opt_url options" if "\<not> suffix ''/'' (opt_url options)"
  proof (cases "opt_url options = []")
    case True
    then show ?thesis by (simp add: new_McpClient_def strip_trailing_slash_def)
  next
    case False
    then have "opt_url options = butlast (opt_url options) @ [last (opt_url options)]" by simp
    with that have "last (opt_url options) \<noteq> CHR ''/''"
      by (metis suffixI)
    then show ?thesis by (simp add: new_McpClient_def strip_trailing_slash_def)
  qed
  have "url_inv (url (new_McpClient options)) (length log0) (new_McpClient options, log0)"
    by (simp add: url_inv_def)
  from url_inv_run_ops [OF this, of P ops]
  have c: "url (fst (run_ops P ops (new_McpClient options, log0))) = url (new_McpClient options)"
    and d: "\<forall>r \<in> set (drop (length log0) (snd (run_ops P ops (new_McpClient options, log0)))).
              req_url r = url (new_McpClient options)"
    by (auto simp: url_inv_def split: prod.splits)
  from a b c d show ?thesis by blast
qed

lemmas client_defs = apply_op_def ping_def listTools_def callTool_def initialize_def
  sendInitializedNotification_def nextRequestId_def execute_def
  execute_on_def execute_try_def execute_catch_def build_request_def buildHeaders_def new_McpClient_def
  headers_get_def response_ok_def truthy_str_def strip_trailing_slash_def session_header_def
  response_with_def

theorem client_url_fixed_witness:
  "opt_url sample_options = ''http://localhost/mcpgw/mcp'' @ ''/''
   \<and> url (new_McpClient sample_options) = ''http://localhost/mcpgw/mcp''
   \<and> \<not> suffix ''/'' (opt_url no_slash_options)
   \<and> url (new_McpClient no_slash_options) = ''http://localhost/mcpgw/mcp''
   \<and> url (fst (run_ops (sample_platform empty_ok_fetch) [OpInitialize, OpPing] (new_McpClient sample_options, [])))
       = ''http://localhost/mcpgw/mcp''
   \<and> map req_url (drop (length ([] :: http_request list))
        (snd (run_ops (sample_platform empty_ok_fetch) [OpInitialize, OpPing] (new_McpClient sample_options, []))))
       = [''http://localhost/mcpgw/mcp'', ''http://localhost/mcpgw/mcp'', ''http://localhost/mcpgw/mcp'']"
  using client_url_fixed [of sample_options "sample_platform empty_ok_fetch" "[OpInitialize, OpPing]" "[]"]
    client_url_fixed [of no_slash_options "sample_platform empty_ok_fetch" "[]" "[]"]
  by (simp add: client_defs sample_options_def no_slash_options_def sample_platform_def empty_ok_fetch_def
        suffix_def Let_def)

section \<open>The session identifier\<close>

lemma latest_session_append:
  "n \<le> length log \<Longrightarrow> latest_session P (log @ xs) k n = latest_session P log k n"
  by (induction n) auto

lemma latest_session_below: "n \<le> k \<Longrightarrow> latest_session P log k n = None"
  by (cases n) auto

lemma session_header_build:
  "session_header (build_request c payload) = nonempty_session (sessionId c)"
  by (auto simp: session_header_def build_request_def buildHeaders_def nonempty_session_def truthy_str_def
           split: option.splits)

lemma session_inv_execute:
  assumes "session_inv P k (c, log)"
  shows "session_inv P k (snd (execute P payload ign (c, log)))"
proof -
  let ?req = "build_request c payload"
  let ?log = "log @ [?req]"
  from assms have k: "k \<le> length log"
    and sid: "sessionId c = latest_session P log k (length log)"
    and old: "\<And>j. k \<le> j \<Longrightarrow> j < length log \<Longrightarrow>
                session_header (log ! j) = nonempty_session (latest_session P log k j)"
    by (auto simp: session_inv_def)
  have new_sid: "session_of_outcome (fetch P ?log) (sessionId c) = latest_session P ?log k (length ?log)"
    using k sid by (simp add: latest_session_append)
  have hdr: "session_header (?log ! j) = nonempty_session (latest_session P ?log k j)"
    if "k \<le> j" "j < length ?log" for j
  proof (cases "j < length log")
    case True
    with that old [of j] show ?thesis
      by (simp add: nth_append latest_session_append)
  next
    case False
    with that have "j = length log" by simp
    then show ?thesis
      using sid by (simp add: session_header_build latest_session_append)
  qed
  show ?thesis
    unfolding execute_state session_inv_def using k new_sid hdr by simp
qed

lemma session_inv_run_ops:
  "session_inv P k cw \<Longrightarrow> session_inv P k (run_ops P ops cw)"
  by (rule run_ops_invariant [where I = "session_inv P k", OF session_inv_execute])
     (simp_all add: session_inv_def)

lemma session_inv_new:
  "session_inv P (length log0) (new_McpClient options, log0)"
  by (auto simp: session_inv_def new_McpClient_def latest_session_below)

lemma latest_session_origin:
  "latest_session P log k n = Some s \<Longrightarrow>
     \<exists>i r. k \<le> i \<and> i < n \<and> fetch P (take (Suc i) log) = FetchResolved r
           \<and> headers_get r ''mcp-session-id'' = Some s"
proof (induction n)
  case 0
  then show ?case by simp
next
  case (Suc n)
  show ?case
  proof (cases "n < k")
    case True
    with Suc.prems show ?thesis by simp
  next
    case False
    show ?thesis
    proof (cases "latest_session P log k n = Some s")
      case True
      from Suc.IH [OF this] show ?thesis by (meson less_SucI)
    next
      case other: False
      with Suc.prems False
      obtain r where "fetch P (take (Suc n) log) = FetchResolved r" "headers_get r ''mcp-session-id'' = Some s"
        by (auto simp: session_of_outcome_def split: fetch_outcome.splits option.splits)
      with False show ?thesis by (intro exI [of _ n] exI [of _ r]) simp
    qed
  qed
qed

text \<open>
  C1, as the code has it. On a client instance, each request carries in its session header
  the session identifier of the most recent response that had a session header, whatever
  the status of that response, provided that identifier is not the empty string; it
  carries no session header when no response had one yet or when the most recent one was
  empty. A session identifier that a request carries was the session header of an earlier
  response to this instance.
\<close>

theorem session_header_is_latest_response:
  assumes "run_ops P ops (new_McpClient options, log0) = (c', log')"
    and "length log0 \<le> j" and "j < length log'"
  shows "session_header (log' ! j) = nonempty_session (latest_session P log' (length log0) j)
     \<and> (\<forall>s. session_header (log' ! j) = Some s \<longrightarrow>
           (\<exists>i r. length log0 \<le> i \<and> i < j \<and> fetch P (take (Suc i) log') = FetchResolved r
                  \<and> headers_get r ''mcp-session-id'' = Some s))"
proof -
  have inv: "session_inv P (length log0) (c', log')"
    using session_inv_run_ops [OF session_inv_new, where ops = ops and P = P and ?log0.1 = log0 and options1 = options]
      assms(1) by simp
  then have hdr: "session_header (log' ! j) = nonempty_session (latest_session P log' (length log0) j)"
    using assms(2,3) by (simp add: session_inv_def)
  moreover have "\<exists>i r. length log0 \<le> i \<and> i < j \<and> fetch P (take (Suc i) log') = FetchResolved r
                  \<and> headers_get r ''mcp-session-id'' = Some s"
    if "session_header (log' ! j) = Some s" for s
  proof -
    from that hdr have "latest_session P log' (length log0) j = Some s"
      by (auto simp: nonempty_session_def split: option.splits if_splits)
    from latest_session_origin [OF this] show ?thesis .
  qed
  ultimately show ?thesis by blast
qed

lemma session_run2:
  "run_ops (sample_platform session_fetch) [OpPing, OpPing] (new_McpClient sample_options, []) =
     (new_McpClient sample_options \<lparr>requestId := 2, sessionId := Some []\<rparr>,
      [\<lparr> req_url = ''http://localhost/mcpgw/mcp'',
          req_headers = [(''content-type'', ''application/json''),
                         (''accept'', ''application/json, text/event-stream''),
                         (''user-agent'', ''mcp-ink-cli/0.1.0'')],
          req_body = \<lparr> rpc_id = Some 1, rpc_method = ''ping'', rpc_params = None \<rparr>,
          req_signal = 30000 \<rparr>,
       \<lparr> req_url = ''http://localhost/mcpgw/mcp'',
          req_headers = [(''content-type'', ''application/json''),
                         (''accept'', ''application/json, text/event-stream''),
                         (''user-agent'', ''mcp-ink-cli/0.1.0''),
                         (''mcp-session-id'', ''abc'')],
          req_body = \<lparr> rpc_id = Some 2, rpc_method = ''ping'', rpc_params = None \<rparr>,
          req_signal = 30000 \<rparr>])"
  by (simp add: client_defs sample_platform_def session_fetch_def sample_options_def Let_def)

theorem session_header_is_latest_response_witness:
  "length ([] :: http_request list) \<le> 1
   \<and> 1 < length (snd (run_ops (sample_platform session_fetch) [OpPing, OpPing] (new_McpClient sample_options, [])))
   \<and> session_header (snd (run_ops (sample_platform session_fetch) [OpPing, OpPing] (new_McpClient sample_options, [])) ! 1)
        = Some ''abc''
   \<and> (\<exists>i r. i < 1
         \<and> fetch (sample_platform session_fetch)
              (take (Suc i) (snd (run_ops (sample_platform session_fetch) [OpPing, OpPing] (new_McpClient sample_options, []))))
            = FetchResolved r
         \<and> headers_get r ''mcp-session-id'' = Some ''abc'')"
proof -
  let ?run = "run_ops (sample_platform session_fetch) [OpPing, OpPing] (new_McpClient sample_options, [])"
  have run: "?run = (fst ?run, snd ?run)"
    by simp
  have len: "length ([] :: http_request list) \<le> 1" "1 < length (snd ?run)"
    unfolding session_run2 by simp_all
  have hdr: "session_header (snd ?run ! 1) = Some ''abc''"
    unfolding session_run2 by (simp add: session_header_def)
  from session_header_is_latest_response [OF run len] hdr
  show ?thesis using len by auto
qed

text \<open>
  The claim as it is written fails. When the first response sets the session \<open>abc\<close> and
  the second carries an empty session header, the third request carries no session header
  at all. When the second response sets the session \<open>xyz\<close> instead, the third request
  carries \<open>xyz\<close>, not the \<open>abc\<close> received before.
\<close>

theorem session_header_counterexample:
  "fetch (sample_platform session_fetch)
        (take 1 (snd (run_ops (sample_platform session_fetch) [OpPing, OpPing, OpPing] (new_McpClient sample_options, []))))
      = FetchResolved (response_with 200 ''OK'' [(''mcp-session-id'', ''abc'')] [])
   \<and> fetch (sample_platform session_fetch)
        (take 2 (snd (run_ops (sample_platform session_fetch) [OpPing, OpPing, OpPing] (new_McpClient sample_options, []))))
      = FetchResolved (response_with 200 ''OK'' [(''mcp-session-id'', [])] [])
   \<and> map session_header (snd (run_ops (sample_platform session_fetch) [OpPing, OpPing, OpPing] (new_McpClient sample_options, [])))
      = [None, Some ''abc'', None]
   \<and> fetch (sample_platform rotating_fetch)
        (take 1 (snd (run_ops (sample_platform rotating_fetch) [OpPing, OpPing, OpPing] (new_McpClient sample_options, []))))
      = FetchResolved (response_with 200 ''OK'' [(''mcp-session-id'', ''abc'')] [])
   \<and> fetch (sample_platform rotating_fetch)
        (take 2 (snd (run_ops (sample_platform rotating_fetch) [OpPing, OpPing, OpPing] (new_McpClient sample_options, []))))
      = FetchResolved (response_with 200 ''OK'' [(''mcp-session-id'', ''xyz'')] [])
   \<and> map session_header (snd (run_ops (sample_platform rotating_fetch) [OpPing, OpPing, OpPing] (new_McpClient sample_options, [])))
      = [None, Some ''abc'', Some ''xyz'']"
  by (simp add: client_defs sample_platform_def session_fetch_def rotating_fetch_def sample_options_def Let_def)

section \<open>The error raised for a status outside 2xx\<close>

lemma buildHttpError_cases:
  "buildHttpError P st stText body =
     Error (''HTTP '' @ show_int st @ '' '' @ stText @
       (case error_object P body of
          None \<Rightarrow> ''.'' @ (if body \<noteq> [] then '' '' @ trim body else [])
        | Some e \<Rightarrow> '': '' @ (case message_of e of None \<Rightarrow> JSON_stringify P e | Some m \<Rightarrow> js_String m)))"
proof (cases "JSON_parse P body")
  case (Inl m)
  then show ?thesis
    by (simp add: buildHttpError_def buildHttpError_try_def error_object_def)
next
  case (Inr js)
  show ?thesis
  proof (cases js)
    case (JObj kvs)
    show ?thesis
    proof (cases "lookup kvs ''error''")
      case None
      with Inr JObj show ?thesis
        by (simp add: buildHttpError_def buildHttpError_try_def error_object_def truthy_opt_def)
    next
      case (Some err)
      with Inr JObj show ?thesis
        by (cases err)
           (auto simp: buildHttpError_def buildHttpError_try_def error_object_def truthy_opt_def message_of_def
                       Let_def
                 split: option.splits)
    qed
  qed (use Inr in \<open>simp_all add: buildHttpError_def buildHttpError_try_def error_object_def truthy_opt_def\<close>)
qed

lemma execute_on_http_error:
  assumes "resp_text response = Inr body" and "\<not> response_ok response"
  shows "fst (execute_on P c False (FetchResolved response)) =
           Inl (buildHttpError P (status response) (statusText response) body)"
proof -
  have "err_name (buildHttpError P (status response) (statusText response) body) \<noteq> ''AbortError''"
    by (simp add: buildHttpError_cases Error_def)
  with assms show ?thesis
    by (simp add: execute_on_def execute_try_def execute_catch_def Let_def)
qed

lemma sublist_mid: "sublist x (a @ x @ b)"
  by (auto simp: sublist_def)

lemma sublist_end: "sublist x (a @ x)"
  using sublist_mid [of x a "[]"] by simp

text \<open>
  C6, as the code has it. A request that is not best-effort and receives a status outside
  2xx raises an error whose message contains the status code and

  \<^item> the message string, when the body is JSON for an object whose \<open>error\<close> is an object
    with a string \<open>message\<close> (a \<open>message\<close> of another type is rendered as \<open>String\<close> does);
  \<^item> \<open>JSON.stringify\<close> of the \<open>error\<close> value, when that is an object or array without a
    \<open>message\<close> (or with a \<open>null\<close> one);
  \<^item> the raw body text without its leading and trailing white space, when the body is not
    JSON or has no object-valued \<open>error\<close>.
\<close>

theorem http_error_message:
  assumes "resp_text response = Inr body" and "\<not> response_ok response"
  shows "\<exists>msg. fst (execute_on P c False (FetchResolved response)) = Inl (Error msg)
          \<and> sublist (show_int (status response)) msg
          \<and> (\<forall>e m. error_object P body = Some e \<and> message_of e = Some (JStr m) \<longrightarrow> sublist m msg)
          \<and> (\<forall>e v. error_object P body = Some e \<and> message_of e = Some v \<longrightarrow> sublist (js_String v) msg)
          \<and> (\<forall>e. error_object P body = Some e \<and> message_of e = None \<longrightarrow> sublist (JSON_stringify P e) msg)
          \<and> (error_object P body = None \<longrightarrow> sublist (trim body) msg)"
proof -
  let ?tail = "(case error_object P body of
          None \<Rightarrow> ''.'' @ (if body \<noteq> [] then '' '' @ trim body else [])
        | Some e \<Rightarrow> '': '' @ (case message_of e of None \<Rightarrow> JSON_stringify P e | Some m \<Rightarrow> js_String m))"
  let ?msg = "''HTTP '' @ show_int (status response) @ '' '' @ statusText response @ ?tail"
  have r: "fst (execute_on P c False (FetchResolved response)) = Inl (Error ?msg)"
    using execute_on_http_error [OF assms] by (simp add: buildHttpError_cases)
  have st: "sublist (show_int (status response)) ?msg"
    by (rule sublist_mid)
  have tail: "sublist ?tail ?msg"
    using sublist_end [of ?tail "''HTTP '' @ show_int (status response) @ '' '' @ statusText response"] by simp
  have v: "sublist (js_String v) ?msg" if "error_object P body = Some e" "message_of e = Some v" for e v
  proof -
    have "sublist (js_String v) ?tail" using that sublist_end [of "js_String v" "'': ''"] by simp
    from this tail show ?thesis by (rule sublist_order.order.trans)
  qed
  have m: "sublist m ?msg" if "error_object P body = Some e" "message_of e = Some (JStr m)" for e m
    using v [OF that] by simp
  have s: "sublist (JSON_stringify P e) ?msg" if "error_object P body = Some e" "message_of e = None" for e
  proof -
    have "sublist (JSON_stringify P e) ?tail" using that sublist_end [of "JSON_stringify P e" "'': ''"] by simp
    from this tail show ?thesis by (rule sublist_order.order.trans)
  qed
  have b: "sublist (trim body) ?msg" if "error_object P body = None"
  proof -
    have "trim [] = []" by (simp add: trim_def)
    then have "sublist (trim body) ?tail"
      using that sublist_end [of "trim body" "''. ''"] by (cases "body = []") simp_all
    from this tail show ?thesis by (rule sublist_order.order.trans)
  qed
  show ?thesis
  proof (intro exI [of _ ?msg] conjI allI impI)
    show "fst (execute_on P c False (FetchResolved response)) = Inl (Error ?msg)" by (rule r)
    show "sublist (show_int (status response)) ?msg" by (rule st)
    show "sublist m ?msg" if "error_object P body = Some e \<and> message_of e = Some (JStr m)" for e m
      using that m by blast
    show "sublist (js_String v) ?msg" if "error_object P body = Some e \<and> message_of e = Some v" for e v
      using that v by blast
    show "sublist (JSON_stringify P e) ?msg" if "error_object P body = Some e \<and> message_of e = None" for e
      using that s by blast
    show "sublist (trim body) ?msg" if "error_object P body = None"
      using that by (rule b)
  qed
qed


lemmas sample_defs = sample_platform_def sample_parse_def sample_stringify_def body_ok_def body_forbidden_def
  body_code_def sample_client_def sample_options_def

lemmas http_error_defs = buildHttpError_def buildHttpError_try_def error_object_def message_of_def lookup_def
  truthy_opt_def show_int_def show_nat.simps digit_char_def trim_def is_js_space_def Error_def Let_def

lemma http_error_forbidden:
  \<open>fst (execute_on (sample_platform empty_ok_fetch) sample_client False
      (FetchResolved (response_with 403 ''Forbidden'' [(''content-type'', ''application/json'')] body_forbidden)))
    = Inl (Error ''HTTP 403 Forbidden: forbidden'')\<close>
  by (simp add: client_defs sample_defs http_error_defs)

lemma http_error_code:
  \<open>fst (execute_on (sample_platform empty_ok_fetch) sample_client False
      (FetchResolved (response_with 500 ''Internal Server Error'' [(''content-type'', ''application/json'')] body_code)))
    = Inl (Error ''HTTP 500 Internal Server Error: {"code":1}'')\<close>
  by (simp add: client_defs sample_defs http_error_defs)

lemma http_error_text:
  \<open>fst (execute_on (sample_platform empty_ok_fetch) sample_client False
      (FetchResolved (response_with 502 ''Bad Gateway'' [(''content-type'', ''text/plain'')] ''  upstream down\<newline>'')))
    = Inl (Error ''HTTP 502 Bad Gateway. upstream down'')\<close>
  by (simp add: client_defs sample_defs http_error_defs)

theorem http_error_message_witness:
  \<open>\<not> response_ok (response_with 403 ''Forbidden'' [(''content-type'', ''application/json'')] body_forbidden)
   \<and> error_object (sample_platform empty_ok_fetch) body_forbidden = Some (JObj [(''message'', JStr ''forbidden'')])
   \<and> message_of (JObj [(''message'', JStr ''forbidden'')]) = Some (JStr ''forbidden'')
   \<and> sublist (show_int 403) ''HTTP 403 Forbidden: forbidden''
   \<and> sublist ''forbidden'' ''HTTP 403 Forbidden: forbidden''
   \<and> error_object (sample_platform empty_ok_fetch) body_code = Some (JObj [(''code'', JNum 1)])
   \<and> message_of (JObj [(''code'', JNum 1)]) = None
   \<and> sublist (JSON_stringify (sample_platform empty_ok_fetch) (JObj [(''code'', JNum 1)]))
        ''HTTP 500 Internal Server Error: {"code":1}''
   \<and> error_object (sample_platform empty_ok_fetch) ''  upstream down\<newline>'' = None
   \<and> sublist (trim ''  upstream down\<newline>'') ''HTTP 502 Bad Gateway. upstream down''\<close>
proof -
  let ?P = "sample_platform empty_ok_fetch"
  let ?r1 = "response_with 403 ''Forbidden'' [(''content-type'', ''application/json'')] body_forbidden"
  let ?r2 = "response_with 500 ''Internal Server Error'' [(''content-type'', ''application/json'')] body_code"
  let ?r3 = "response_with 502 ''Bad Gateway'' [(''content-type'', ''text/plain'')] ''  upstream down\<newline>''"
  have nok: "\<not> response_ok ?r1" "\<not> response_ok ?r2" "\<not> response_ok ?r3"
    by (simp_all add: response_ok_def response_with_def)
  have bodies: "resp_text ?r1 = Inr body_forbidden" "resp_text ?r2 = Inr body_code"
      "resp_text ?r3 = Inr ''  upstream down\<newline>''"
    by (simp_all add: response_with_def)
  have st: "status ?r1 = 403"
    by (simp add: response_with_def)
  have e1: "error_object ?P body_forbidden = Some (JObj [(''message'', JStr ''forbidden'')])"
    and m1: "message_of (JObj [(''message'', JStr ''forbidden'')]) = Some (JStr ''forbidden'')"
    and e2: "error_object ?P body_code = Some (JObj [(''code'', JNum 1)])"
    and m2: "message_of (JObj [(''code'', JNum 1)]) = None"
    and e3: "error_object ?P ''  upstream down\<newline>'' = None"
    by (simp_all add: sample_defs error_object_def message_of_def lookup_def)
  from http_error_message [OF bodies(1) nok(1), of ?P sample_client] http_error_forbidden e1 m1 st
  have w1: "sublist (show_int 403) ''HTTP 403 Forbidden: forbidden''"
      "sublist ''forbidden'' ''HTTP 403 Forbidden: forbidden''"
    by (auto simp: Error_def)
  from http_error_message [OF bodies(2) nok(2), of ?P sample_client] http_error_code e2 m2
  have w2: \<open>sublist (JSON_stringify ?P (JObj [(''code'', JNum 1)])) ''HTTP 500 Internal Server Error: {"code":1}''\<close>
    by (auto simp: Error_def)
  from http_error_message [OF bodies(3) nok(3), of ?P sample_client] http_error_text e3
  have w3: "sublist (trim ''  upstream down\<newline>'') ''HTTP 502 Bad Gateway. upstream down''"
    by (auto simp: Error_def)
  from nok(1) e1 m1 w1 e2 m2 w2 e3 w3 show ?thesis by blast
qed

text \<open>
  The claim as it is written fails for a JSON body whose error object has no message: the
  message carries \<open>JSON.stringify\<close> of the error object, and neither the raw body nor the
  trimmed raw body is part of it.
\<close>

lemma body_code_not_in_message:
  \<open>\<not> sublist ''{"error": {"code": 1}}'' ''HTTP 500 Internal Server Error: {"code":1}''\<close>
  by code_simp

theorem http_error_counterexample:
  \<open>\<not> response_ok (response_with 500 ''Internal Server Error'' [(''content-type'', ''application/json'')] body_code)
   \<and> error_object (sample_platform empty_ok_fetch) body_code = Some (JObj [(''code'', JNum 1)])
   \<and> message_of (JObj [(''code'', JNum 1)]) = None
   \<and> fst (execute_on (sample_platform empty_ok_fetch) sample_client False
        (FetchResolved (response_with 500 ''Internal Server Error'' [(''content-type'', ''application/json'')] body_code)))
      = Inl (Error ''HTTP 500 Internal Server Error: {"code":1}'')
   \<and> \<not> sublist body_code ''HTTP 500 Internal Server Error: {"code":1}''
   \<and> trim body_code = body_code\<close>
proof -
  have "\<not> response_ok (response_with 500 ''Internal Server Error'' [(''content-type'', ''application/json'')] body_code)"
    by (simp add: response_ok_def response_with_def)
  moreover have "error_object (sample_platform empty_ok_fetch) body_code = Some (JObj [(''code'', JNum 1)])"
      "message_of (JObj [(''code'', JNum 1)]) = None"
    by (simp_all add: sample_defs error_object_def message_of_def lookup_def)
  moreover have \<open>\<not> sublist body_code ''HTTP 500 Internal Server Error: {"code":1}''\<close>
    unfolding body_code_def by (rule body_code_not_in_message)
  moreover have "trim body_code = body_code"
    by (simp add: body_code_def trim_def is_js_space_def)
  ultimately show ?thesis using http_error_code by blast
qed

lemma json_is_no_event_stream: "\<not> sublist ''text/event-stream'' ''application/json''"
  by code_simp

section \<open>Decoding an event stream\<close>

lemma parseSse_lines_first_parsed:
  assumes "isl (JSON_parse P [])"
  shows "parseSse_lines P ls =
          (case first_parsed P (map (\<lambda>l. trim (drop 5 l)) (filter (\<lambda>l. prefix ''data:'' l) ls)) of
             Some v \<Rightarrow> v
           | None \<Rightarrow> sse_error_envelope)"
proof (induction ls)
  case Nil
  then show ?case by simp
next
  case (Cons l ls)
  show ?case
  proof (cases "prefix ''data:'' l")
    case False
    with Cons show ?thesis by (simp add: startsWith_def)
  next
    case True
    show ?thesis
    proof (cases "trim (drop 5 l) = []")
      case empty: True
      from assms obtain m where "JSON_parse P [] = Inl m" by (cases "JSON_parse P []") auto
      with True empty Cons show ?thesis by (simp add: startsWith_def)
    next
      case False
      with True Cons show ?thesis
        by (simp add: startsWith_def Let_def split: sum.splits)
    qed
  qed
qed

lemma parseSsePayload_first_parsed:
  "isl (JSON_parse P []) \<Longrightarrow>
     parseSsePayload P raw =
       (case first_parsed P (data_payloads raw) of Some v \<Rightarrow> v | None \<Rightarrow> sse_error_envelope)"
  by (simp add: parseSsePayload_def data_payloads_def parseSse_lines_first_parsed)

lemma first_parsed_found:
  "\<forall>q \<in> set before. isl (JSON_parse P q) \<Longrightarrow> JSON_parse P p = Inr v
     \<Longrightarrow> first_parsed P (before @ p # rest) = Some v"
  by (induction before) (auto split: sum.splits)

lemma first_parsed_none:
  "\<forall>q \<in> set ps. isl (JSON_parse P q) \<Longrightarrow> first_parsed P ps = None"
  by (induction ps) (auto split: sum.splits)

lemma execute_on_sse:
  assumes "headers_get response ''content-type'' = Some contentType"
    and "sublist ''text/event-stream'' contentType"
    and "resp_text response = Inr rawBody" and "rawBody \<noteq> []"
    and "response_ok response \<or> ignoreErrors"
  shows "fst (execute_on P c ignoreErrors (FetchResolved response)) = Inr (parseSsePayload P rawBody)"
  using assms by (auto simp: execute_on_def execute_try_def includes_str_def Let_def)

lemma execute_on_empty_body:
  assumes "resp_text response = Inr []" and "response_ok response \<or> ignoreErrors"
  shows "fst (execute_on P c ignoreErrors (FetchResolved response)) = Inr (JObj [(''jsonrpc'', JStr ''2.0'')])"
  using assms by (auto simp: execute_on_def execute_try_def empty_envelope_def Let_def)

text \<open>
  C5, as the code has it. For a response whose content type includes
  \<open>text/event-stream\<close> there are four cases. With a status of 2xx, or on a best-effort
  call, and a body that is not empty: if some \<open>data:\<close> line has a trimmed payload that
  parses as JSON, the result is the parsed payload of the first such line; if no \<open>data:\<close>
  line has one, the result is the envelope whose error message is
  \<open>No JSON payload found in SSE response\<close>. With such a status or call and an empty
  body, the result is the empty-success envelope. With a status outside 2xx on a call that
  is not best-effort, the call raises the HTTP error made of the status and the body, and
  nothing is decoded. This takes from the platform that \<open>JSON.parse\<close> rejects the empty
  text.
\<close>

theorem sse_response_decoding:
  assumes "isl (JSON_parse P [])"
    and "headers_get response ''content-type'' = Some contentType"
    and "sublist ''text/event-stream'' contentType"
    and "resp_text response = Inr rawBody"
  shows "(\<forall>before p rest v.
            (response_ok response \<or> ignoreErrors) \<and> rawBody \<noteq> []
            \<and> data_payloads rawBody = before @ p # rest
            \<and> (\<forall>q \<in> set before. isl (JSON_parse P q)) \<and> JSON_parse P p = Inr v
            \<longrightarrow> fst (execute_on P c ignoreErrors (FetchResolved response)) = Inr v)
       \<and> ((response_ok response \<or> ignoreErrors) \<and> rawBody \<noteq> []
            \<and> (\<forall>q \<in> set (data_payloads rawBody). isl (JSON_parse P q))
            \<longrightarrow> fst (execute_on P c ignoreErrors (FetchResolved response)) =
                  Inr (JObj [(''jsonrpc'', JStr ''2.0''),
                             (''error'', JObj [(''message'', JStr ''No JSON payload found in SSE response'')])]))
       \<and> ((response_ok response \<or> ignoreErrors) \<and> rawBody = []
            \<longrightarrow> fst (execute_on P c ignoreErrors (FetchResolved response)) = Inr (JObj [(''jsonrpc'', JStr ''2.0'')]))
       \<and> (\<not> response_ok response \<and> \<not> ignoreErrors
            \<longrightarrow> fst (execute_on P c ignoreErrors (FetchResolved response)) =
                  Inl (buildHttpError P (status response) (statusText response) rawBody)
                \<and> (\<exists>msg. buildHttpError P (status response) (statusText response) rawBody = Error msg
                       \<and> sublist (show_int (status response)) msg))"
proof -
  have decoded: "fst (execute_on P c ignoreErrors (FetchResolved response)) =
             Inr (case first_parsed P (data_payloads rawBody) of Some v \<Rightarrow> v | None \<Rightarrow> sse_error_envelope)"
    if "response_ok response \<or> ignoreErrors" "rawBody \<noteq> []"
    using execute_on_sse [OF assms(2,3,4) that(2,1)] parseSsePayload_first_parsed [OF assms(1)] by simp
  have found: "fst (execute_on P c ignoreErrors (FetchResolved response)) = Inr v"
    if "(response_ok response \<or> ignoreErrors) \<and> rawBody \<noteq> []
        \<and> data_payloads rawBody = before @ p # rest
        \<and> (\<forall>q \<in> set before. isl (JSON_parse P q)) \<and> JSON_parse P p = Inr v" for before p rest v
    using that decoded by (simp add: first_parsed_found)
  have none: "fst (execute_on P c ignoreErrors (FetchResolved response)) =
                  Inr (JObj [(''jsonrpc'', JStr ''2.0''),
                             (''error'', JObj [(''message'', JStr ''No JSON payload found in SSE response'')])])"
    if "(response_ok response \<or> ignoreErrors) \<and> rawBody \<noteq> []
        \<and> (\<forall>q \<in> set (data_payloads rawBody). isl (JSON_parse P q))"
    using that decoded by (simp add: first_parsed_none sse_error_envelope_def)
  have empty: "fst (execute_on P c ignoreErrors (FetchResolved response)) = Inr (JObj [(''jsonrpc'', JStr ''2.0'')])"
    if "(response_ok response \<or> ignoreErrors) \<and> rawBody = []"
    using that assms(4) execute_on_empty_body [of response ignoreErrors P c] by simp
  have raised: "fst (execute_on P c ignoreErrors (FetchResolved response)) =
                  Inl (buildHttpError P (status response) (statusText response) rawBody)
                \<and> (\<exists>msg. buildHttpError P (status response) (statusText response) rawBody = Error msg
                       \<and> sublist (show_int (status response)) msg)"
    if "\<not> response_ok response \<and> \<not> ignoreErrors"
  proof -
    from that have ign: "ignoreErrors = False" and nok: "\<not> response_ok response" by simp_all
    have "sublist (show_int (status response))
            (''HTTP '' @ show_int (status response) @ '' '' @ statusText response @ tail)" for tail
      by (rule sublist_mid)
    then have "\<exists>msg. buildHttpError P (status response) (statusText response) rawBody = Error msg
                       \<and> sublist (show_int (status response)) msg"
      unfolding buildHttpError_cases by blast
    with execute_on_http_error [OF assms(4) nok, of P c] ign show ?thesis by simp
  qed
  from found none empty raised show ?thesis by blast
qed

lemma sample_parse_empty: "isl (sample_parse [])"
  by (simp add: sample_parse_def body_ok_def body_forbidden_def body_code_def)

lemma sse_two_data_payloads:
  "data_payloads sse_two_data = [''not json''] @ body_ok # []"
  by (simp add: data_payloads_def sse_two_data_def body_ok_def trim_def is_js_space_def)

lemma sse_bad_data_payloads:
  "data_payloads sse_bad_data = [''not json'']"
  by (simp add: data_payloads_def sse_bad_data_def trim_def is_js_space_def)

lemma sse_raised:
  "buildHttpError (sample_platform empty_ok_fetch) 500 ''Internal Server Error'' sse_bad_data
     = Error ''HTTP 500 Internal Server Error. data: not json''"
  by (simp add: sample_defs http_error_defs sse_bad_data_def)

theorem sse_response_decoding_witness:
  "isl (JSON_parse (sample_platform empty_ok_fetch) [])
   \<and> sublist ''text/event-stream'' ''text/event-stream''
   \<and> response_ok (response_with 200 ''OK'' [(''content-type'', ''text/event-stream'')] sse_two_data)
   \<and> sse_two_data \<noteq> []
   \<and> data_payloads sse_two_data = [''not json''] @ body_ok # []
   \<and> isl (JSON_parse (sample_platform empty_ok_fetch) ''not json'')
   \<and> fst (execute_on (sample_platform empty_ok_fetch) sample_client False
        (FetchResolved (response_with 200 ''OK'' [(''content-type'', ''text/event-stream'')] sse_two_data)))
      = Inr (JObj [(''jsonrpc'', JStr ''2.0''), (''result'', JObj [(''ok'', JBool True)])])
   \<and> sse_bad_data \<noteq> []
   \<and> data_payloads sse_bad_data = [''not json'']
   \<and> fst (execute_on (sample_platform empty_ok_fetch) sample_client False
        (FetchResolved (response_with 200 ''OK'' [(''content-type'', ''text/event-stream'')] sse_bad_data)))
      = Inr (JObj [(''jsonrpc'', JStr ''2.0''),
                   (''error'', JObj [(''message'', JStr ''No JSON payload found in SSE response'')])])
   \<and> fst (execute_on (sample_platform empty_ok_fetch) sample_client False
        (FetchResolved (response_with 200 ''OK'' [(''content-type'', ''text/event-stream'')] [])))
      = Inr (JObj [(''jsonrpc'', JStr ''2.0'')])
   \<and> \<not> response_ok (response_with 500 ''Internal Server Error'' [(''content-type'', ''text/event-stream'')] sse_bad_data)
   \<and> fst (execute_on (sample_platform empty_ok_fetch) sample_client False
        (FetchResolved (response_with 500 ''Internal Server Error'' [(''content-type'', ''text/event-stream'')]
           sse_bad_data)))
      = Inl (Error ''HTTP 500 Internal Server Error. data: not json'')
   \<and> sublist (show_int 500) ''HTTP 500 Internal Server Error. data: not json''"
proof -
  let ?P = "sample_platform empty_ok_fetch"
  let ?hs = "[(''content-type'', ''text/event-stream'')]"
  let ?r1 = "response_with 200 ''OK'' ?hs sse_two_data"
  let ?r2 = "response_with 200 ''OK'' ?hs sse_bad_data"
  let ?r3 = "response_with 200 ''OK'' ?hs []"
  let ?r4 = "response_with 500 ''Internal Server Error'' ?hs sse_bad_data"
  have e: "isl (JSON_parse ?P [])"
    by (simp add: sample_platform_def sample_parse_empty)
  have ct: "headers_get (response_with st stText ?hs body) ''content-type'' = Some ''text/event-stream''"
    for st stText body
    by (simp add: headers_get_def response_with_def)
  have sub: "sublist ''text/event-stream'' ''text/event-stream''"
    by simp
  have body: "resp_text (response_with st stText ?hs b) = Inr b" for st stText b
    by (simp add: response_with_def)
  have ok: "response_ok ?r1" "response_ok ?r2" "response_ok ?r3" and nok: "\<not> response_ok ?r4"
    by (simp_all add: response_ok_def response_with_def)
  have ne: "sse_two_data \<noteq> []" "sse_bad_data \<noteq> []"
    by (simp_all add: sse_two_data_def sse_bad_data_def)
  have bad: "isl (JSON_parse ?P ''not json'')"
    and good: "JSON_parse ?P body_ok = Inr (JObj [(''jsonrpc'', JStr ''2.0''), (''result'', JObj [(''ok'', JBool True)])])"
    by (simp_all add: sample_defs)
  note T1 = sse_response_decoding [OF e ct [of 200 "''OK''" sse_two_data] sub body [of 200 "''OK''" sse_two_data],
      where c = sample_client and ignoreErrors = False]
  note T2 = sse_response_decoding [OF e ct [of 200 "''OK''" sse_bad_data] sub body [of 200 "''OK''" sse_bad_data],
      where c = sample_client and ignoreErrors = False]
  note T3 = sse_response_decoding [OF e ct [of 200 "''OK''" "[]"] sub body [of 200 "''OK''" "[]"],
      where c = sample_client and ignoreErrors = False]
  note T4 = sse_response_decoding [OF e ct [of 500 "''Internal Server Error''" sse_bad_data] sub body [of 500 "''Internal Server Error''" sse_bad_data],
      where c = sample_client and ignoreErrors = False]
  have w1: "fst (execute_on ?P sample_client False (FetchResolved ?r1))
      = Inr (JObj [(''jsonrpc'', JStr ''2.0''), (''result'', JObj [(''ok'', JBool True)])])"
    by (rule T1 [THEN conjunct1, rule_format, where before = "[''not json'']" and p = body_ok and rest = "[]"])
       (simp add: ok ne sse_two_data_payloads bad good)
  have w2: "fst (execute_on ?P sample_client False (FetchResolved ?r2))
      = Inr (JObj [(''jsonrpc'', JStr ''2.0''),
                   (''error'', JObj [(''message'', JStr ''No JSON payload found in SSE response'')])])"
    by (rule T2 [THEN conjunct2, THEN conjunct1, rule_format])
       (simp add: ok ne sse_bad_data_payloads bad)
  have w3: "fst (execute_on ?P sample_client False (FetchResolved ?r3)) = Inr (JObj [(''jsonrpc'', JStr ''2.0'')])"
    by (rule T3 [THEN conjunct2, THEN conjunct2, THEN conjunct1, rule_format]) (simp add: ok)
  have "fst (execute_on ?P sample_client False (FetchResolved ?r4))
      = Inl (buildHttpError ?P (status ?r4) (statusText ?r4) sse_bad_data)"
    by (rule T4 [THEN conjunct2, THEN conjunct2, THEN conjunct2, rule_format, THEN conjunct1]) (simp add: nok)
  then have w4: "fst (execute_on ?P sample_client False (FetchResolved ?r4))
      = Inl (Error ''HTTP 500 Internal Server Error. data: not json'')"
    by (simp add: response_with_def sse_raised)
  have w5: "sublist (show_int 500) ''HTTP 500 Internal Server Error. data: not json''"
    using sublist_mid [of "show_int 500" "''HTTP ''" "'' Internal Server Error. data: not json''"]
    by (simp add: show_int_def show_nat.simps digit_char_def)
  from e sub ok(1) ne sse_two_data_payloads bad w1 sse_bad_data_payloads w2 w3 nok w4 w5
  show ?thesis by blast
qed

text \<open>
  The claim as it is written fails for an event-stream response with an empty body, which
  decodes to the empty-success envelope, and for one with a status outside 2xx on a call
  that is not best-effort, which raises the HTTP error although a \<open>data:\<close> line parses.
\<close>

theorem sse_response_counterexample:
  "data_payloads [] = []
   \<and> fst (execute_on (sample_platform empty_ok_fetch) sample_client False
        (FetchResolved (response_with 200 ''OK'' [(''content-type'', ''text/event-stream'')] [])))
      = Inr (JObj [(''jsonrpc'', JStr ''2.0'')])
   \<and> data_payloads (''data: '' @ body_ok @ ''\<newline>\<newline>'') = [body_ok]
   \<and> fst (execute_on (sample_platform empty_ok_fetch) sample_client False
        (FetchResolved (response_with 500 ''Internal Server Error'' [(''content-type'', ''text/event-stream'')]
           (''data: '' @ body_ok @ ''\<newline>\<newline>''))))
      = Inl (Error (''HTTP 500 Internal Server Error. data: '' @ body_ok))"
  by (simp add: client_defs data_payloads_def sample_platform_def sample_parse_def body_ok_def body_forbidden_def
        body_code_def Let_def empty_envelope_def includes_str_def buildHttpError_def buildHttpError_try_def
        show_int_def show_nat.simps digit_char_def trim_def is_js_space_def Error_def)

section \<open>The timeout\<close>

lemma with_signal_in_flight:
  "in_flight d x \<Longrightarrow> aborted (with_signal d x)"
  by (auto simp: in_flight_def with_signal_def aborted_def AbortError_def split: fetch_outcome.splits)

lemma with_signal_over:
  "\<not> in_flight d x \<Longrightarrow> with_signal d x = unaborted x"
  by (auto simp: in_flight_def with_signal_def split: fetch_outcome.splits)

lemma timed_fetch_latest:
  "timed_fetch server (log @ [build_request c payload]) =
     with_signal (timer_delay (timeout c)) (server (log @ [build_request c payload]))"
  by (simp add: timed_fetch_def build_request_def)

lemma timer_delay_honoured:
  "1 \<le> t \<Longrightarrow> t \<le> 2147483647 \<Longrightarrow> timer_delay t = t"
  by (simp add: timer_delay_def)

lemma execute_on_aborted:
  assumes "aborted out"
  shows "fst (execute_on P c False out) =
           Inl (Error (''Request to '' @ url c @ '' timed out after '' @ show_int (timeout c) @ '' ms''))"
  using assms
  by (auto simp: aborted_def execute_on_def execute_try_def execute_catch_def Let_def
           split: fetch_outcome.splits sum.splits)

lemma execute_on_json:
  assumes "resp_text response = Inr body" and "body \<noteq> []" and "response_ok response"
    and "\<not> sublist ''text/event-stream'' (case headers_get response ''content-type'' of Some t \<Rightarrow> t | None \<Rightarrow> [])"
    and "JSON_parse P body = Inr v"
  shows "fst (execute_on P c ign (FetchResolved response)) = Inr v"
  using assms by (simp add: execute_on_def execute_try_def includes_str_def Let_def)

text \<open>
  C7. \<open>execute\<close> arms a timer with the timeout of the client and gives its signal to
  \<open>fetch\<close>; the timeout is 30000 ms unless the options give one, and a timeout from 1
  to \<open>2\<^sup>3\<^sup>1 - 1\<close> is the delay after which the timer fires. On a platform whose \<open>fetch\<close>
  honours the signal, a request that is not best-effort and is still in flight when the
  timer fires is aborted, and the call raises an error whose message names the URL of the
  client and its timeout. The client keeps its URL and timeout, and a further request on
  it that the server answers with JSON before its own timer fires returns that answer.
\<close>

theorem timeout_error:
  assumes "fetch P = timed_fetch server"
    and "in_flight (timer_delay (timeout c)) (server (log @ [build_request c payload]))"
    and "execute P payload False (c, log) = (r, c', log')"
  shows "aborted (fetch P (log @ [build_request c payload]))
       \<and> r = Inl (Error (''Request to '' @ url c @ '' timed out after '' @ show_int (timeout c) @ '' ms''))
       \<and> sublist (url c) (''Request to '' @ url c @ '' timed out after '' @ show_int (timeout c) @ '' ms'')
       \<and> sublist (show_int (timeout c)) (''Request to '' @ url c @ '' timed out after '' @ show_int (timeout c) @ '' ms'')
       \<and> timeout (new_McpClient options) = (case opt_timeout options of None \<Rightarrow> 30000 | Some t \<Rightarrow> t)
       \<and> (1 \<le> timeout c \<and> timeout c \<le> 2147483647 \<longrightarrow> timer_delay (timeout c) = timeout c)
       \<and> url c' = url c \<and> timeout c' = timeout c \<and> log' = log @ [build_request c payload]
       \<and> (\<forall>payload2 response body v.
             \<not> in_flight (timer_delay (timeout c')) (server (log' @ [build_request c' payload2]))
             \<and> unaborted (server (log' @ [build_request c' payload2])) = FetchResolved response
             \<and> resp_text response = Inr body \<and> body \<noteq> [] \<and> response_ok response
             \<and> \<not> sublist ''text/event-stream'' (case headers_get response ''content-type'' of Some t \<Rightarrow> t | None \<Rightarrow> [])
             \<and> JSON_parse P body = Inr v
             \<longrightarrow> fst (execute P payload2 False (c', log')) = Inr v)"
proof -
  have a: "aborted (fetch P (log @ [build_request c payload]))"
    using assms(1,2) by (simp add: timed_fetch_latest with_signal_in_flight)
  have r: "r = Inl (Error (''Request to '' @ url c @ '' timed out after '' @ show_int (timeout c) @ '' ms''))"
    using execute_on_aborted [OF a, of P c] execute_result [of P payload False c log] assms(3) by simp
  have st: "c' = c\<lparr>sessionId := session_of_outcome (fetch P (log @ [build_request c payload])) (sessionId c)\<rparr>"
      "log' = log @ [build_request c payload]"
    using execute_state [of P payload False c log] assms(3) by simp_all
  have u: "sublist (url c) (''Request to '' @ url c @ '' timed out after '' @ show_int (timeout c) @ '' ms'')"
    by (rule sublist_mid)
  have t: "sublist (show_int (timeout c)) (''Request to '' @ url c @ '' timed out after '' @ show_int (timeout c) @ '' ms'')"
    using sublist_mid [of "show_int (timeout c)" "''Request to '' @ url c @ '' timed out after ''" "'' ms''"] by simp
  have d: "timeout (new_McpClient options) = (case opt_timeout options of None \<Rightarrow> 30000 | Some t \<Rightarrow> t)"
    by (simp add: new_McpClient_def)
  have h: "1 \<le> timeout c \<and> timeout c \<le> 2147483647 \<longrightarrow> timer_delay (timeout c) = timeout c"
    by (simp add: timer_delay_honoured)
  have next_ok: "fst (execute P payload2 False (c', log')) = Inr v"
    if "\<not> in_flight (timer_delay (timeout c')) (server (log' @ [build_request c' payload2]))"
      "unaborted (server (log' @ [build_request c' payload2])) = FetchResolved response"
      "resp_text response = Inr body" "body \<noteq> []" "response_ok response"
      "\<not> sublist ''text/event-stream'' (case headers_get response ''content-type'' of Some t \<Rightarrow> t | None \<Rightarrow> [])"
      "JSON_parse P body = Inr v" for payload2 response body v
  proof -
    have "fetch P (log' @ [build_request c' payload2]) = FetchResolved response"
      using assms(1) that(1,2) by (simp add: timed_fetch_latest with_signal_over)
    with execute_on_json [OF that(3-7), of c' False] show ?thesis
      by (simp add: execute_result)
  qed
  from a r st u t d h next_ok show ?thesis by auto
qed

lemmas timer_defs = timed_fetch_def with_signal_def in_flight_def timer_delay_def slow_then_fast_def
  five_second_options_def AbortError_def

lemma timeout_run:
  "execute (sample_platform (timed_fetch slow_then_fast)) \<lparr> rpc_id = Some 1, rpc_method = ''ping'', rpc_params = None \<rparr>
      False (new_McpClient five_second_options, []) =
   (Inl (Error ''Request to http://localhost/mcpgw/mcp timed out after 5000 ms''), new_McpClient five_second_options,
    [build_request (new_McpClient five_second_options) \<lparr> rpc_id = Some 1, rpc_method = ''ping'', rpc_params = None \<rparr>])"
  by (simp add: client_defs sample_defs timer_defs show_int_def show_nat.simps digit_char_def Let_def)

text \<open>
  The same exchange under the timeout of 30000 ms is over before the timer fires, and the
  call returns the answer of the server.
\<close>

lemma timeout_not_reached:
  "fst (execute (sample_platform (timed_fetch slow_then_fast)) \<lparr> rpc_id = Some 1, rpc_method = ''ping'', rpc_params = None \<rparr>
      False (new_McpClient sample_options, []))
   = Inr (JObj [(''jsonrpc'', JStr ''2.0''), (''result'', JObj [(''ok'', JBool True)])])"
  by (simp add: client_defs sample_defs timer_defs includes_str_def json_is_no_event_stream Let_def)

theorem timeout_error_witness:
  "fetch (sample_platform (timed_fetch slow_then_fast)) = timed_fetch slow_then_fast
   \<and> in_flight (timer_delay (timeout (new_McpClient five_second_options)))
        (slow_then_fast ([] @ [build_request (new_McpClient five_second_options)
                                 \<lparr> rpc_id = Some 1, rpc_method = ''ping'', rpc_params = None \<rparr>]))
   \<and> aborted (fetch (sample_platform (timed_fetch slow_then_fast))
        ([] @ [build_request (new_McpClient five_second_options)
                 \<lparr> rpc_id = Some 1, rpc_method = ''ping'', rpc_params = None \<rparr>]))
   \<and> fst (execute (sample_platform (timed_fetch slow_then_fast))
           \<lparr> rpc_id = Some 1, rpc_method = ''ping'', rpc_params = None \<rparr>
           False (new_McpClient five_second_options, []))
      = Inl (Error ''Request to http://localhost/mcpgw/mcp timed out after 5000 ms'')
   \<and> url (new_McpClient five_second_options) = ''http://localhost/mcpgw/mcp''
   \<and> show_int (timeout (new_McpClient five_second_options)) = ''5000''
   \<and> timeout (new_McpClient sample_options) = 30000
   \<and> 1 \<le> timeout (new_McpClient five_second_options)
   \<and> timeout (new_McpClient five_second_options) \<le> 2147483647
   \<and> timer_delay (timeout (new_McpClient five_second_options)) = 5000
   \<and> \<not> in_flight (timer_delay (timeout (new_McpClient five_second_options)))
        (slow_then_fast
          ([build_request (new_McpClient five_second_options) \<lparr> rpc_id = Some 1, rpc_method = ''ping'', rpc_params = None \<rparr>] @
           [build_request (new_McpClient five_second_options) \<lparr> rpc_id = Some 2, rpc_method = ''ping'', rpc_params = None \<rparr>]))
   \<and> unaborted (slow_then_fast
          ([build_request (new_McpClient five_second_options) \<lparr> rpc_id = Some 1, rpc_method = ''ping'', rpc_params = None \<rparr>] @
           [build_request (new_McpClient five_second_options) \<lparr> rpc_id = Some 2, rpc_method = ''ping'', rpc_params = None \<rparr>]))
      = FetchResolved (response_with 200 ''OK'' [(''content-type'', ''application/json'')] body_ok)
   \<and> body_ok \<noteq> []
   \<and> response_ok (response_with 200 ''OK'' [(''content-type'', ''application/json'')] body_ok)
   \<and> \<not> sublist ''text/event-stream'' ''application/json''
   \<and> JSON_parse (sample_platform (timed_fetch slow_then_fast)) body_ok
      = Inr (JObj [(''jsonrpc'', JStr ''2.0''), (''result'', JObj [(''ok'', JBool True)])])
   \<and> fst (execute (sample_platform (timed_fetch slow_then_fast))
           \<lparr> rpc_id = Some 2, rpc_method = ''ping'', rpc_params = None \<rparr> False
           (new_McpClient five_second_options,
            [build_request (new_McpClient five_second_options) \<lparr> rpc_id = Some 1, rpc_method = ''ping'', rpc_params = None \<rparr>]))
      = Inr (JObj [(''jsonrpc'', JStr ''2.0''), (''result'', JObj [(''ok'', JBool True)])])"
proof -
  let ?P = "sample_platform (timed_fetch slow_then_fast)"
  let ?c = "new_McpClient five_second_options"
  let ?p1 = "\<lparr> rpc_id = Some 1, rpc_method = ''ping'', rpc_params = None \<rparr>"
  let ?p2 = "\<lparr> rpc_id = Some 2, rpc_method = ''ping'', rpc_params = None \<rparr>"
  let ?resp = "response_with 200 ''OK'' [(''content-type'', ''application/json'')] body_ok"
  have f: "fetch ?P = timed_fetch slow_then_fast"
    by (simp add: sample_platform_def)
  have i: "in_flight (timer_delay (timeout ?c)) (slow_then_fast ([] @ [build_request ?c ?p1]))"
    by (simp add: timer_defs new_McpClient_def)
  have u: "url ?c = ''http://localhost/mcpgw/mcp''"
    and t: "show_int (timeout ?c) = ''5000''"
    and d: "timeout (new_McpClient sample_options) = 30000"
    and range: "1 \<le> timeout ?c" "timeout ?c \<le> 2147483647"
    by (simp_all add: client_defs sample_defs timer_defs show_int_def show_nat.simps digit_char_def)
  have over: "\<not> in_flight (timer_delay (timeout ?c)) (slow_then_fast ([build_request ?c ?p1] @ [build_request ?c ?p2]))"
    and un: "unaborted (slow_then_fast ([build_request ?c ?p1] @ [build_request ?c ?p2])) = FetchResolved ?resp"
    by (simp_all add: timer_defs new_McpClient_def)
  have b: "resp_text ?resp = Inr body_ok" "body_ok \<noteq> []" "response_ok ?resp"
    by (simp_all add: response_with_def body_ok_def response_ok_def)
  have ns: "\<not> sublist ''text/event-stream'' ''application/json''"
    by code_simp
  have ct: "(case headers_get ?resp ''content-type'' of Some t \<Rightarrow> t | None \<Rightarrow> []) = ''application/json''"
    by (simp add: headers_get_def response_with_def)
  have p: "JSON_parse ?P body_ok = Inr (JObj [(''jsonrpc'', JStr ''2.0''), (''result'', JObj [(''ok'', JBool True)])])"
    by (simp add: sample_platform_def sample_parse_def)
  note T = timeout_error [OF f i timeout_run, of sample_options]
  have ab: "aborted (fetch ?P ([] @ [build_request ?c ?p1]))"
    by (rule T [THEN conjunct1])
  have delay: "timer_delay (timeout ?c) = 5000"
    using T [THEN conjunct2, THEN conjunct2, THEN conjunct2, THEN conjunct2, THEN conjunct2, THEN conjunct1] range
    by (simp add: new_McpClient_def five_second_options_def)
  note later_rule = T [THEN conjunct2, THEN conjunct2, THEN conjunct2, THEN conjunct2, THEN conjunct2,
    THEN conjunct2, THEN conjunct2, THEN conjunct2, THEN conjunct2, rule_format]
  have first: "fst (execute ?P ?p1 False (?c, []))
      = Inl (Error ''Request to http://localhost/mcpgw/mcp timed out after 5000 ms'')"
    by (simp add: timeout_run)
  have later: "fst (execute ?P ?p2 False (?c, [build_request ?c ?p1]))
      = Inr (JObj [(''jsonrpc'', JStr ''2.0''), (''result'', JObj [(''ok'', JBool True)])])"
    by (rule later_rule [where response = ?resp and body = body_ok])
       (simp add: over [simplified] un [simplified] b ns ct p)
  from f i ab first u t d range delay over un b(2,3) ns p later show ?thesis by simp
qed

section \<open>The notification after the handshake\<close>

lemma execute_on_ignore_status:
  "fst (execute_on P c True (FetchResolved response)) =
     (case resp_text response of
        Inl e \<Rightarrow> Inr empty_envelope
      | Inr rawBody \<Rightarrow>
          if rawBody = [] then Inr empty_envelope
          else if sublist ''text/event-stream''
                    (case headers_get response ''content-type'' of Some t \<Rightarrow> t | None \<Rightarrow> [])
          then Inr (parseSsePayload P rawBody)
          else (case JSON_parse P rawBody of Inl m \<Rightarrow> Inr empty_envelope | Inr v \<Rightarrow> Inr v))"
  by (auto simp: execute_on_def execute_try_def execute_catch_def includes_str_def Let_def split: sum.splits)

lemma initialize_result:
  "fst (initialize P (c, log)) =
     fst (execute P \<lparr> rpc_id = Some (requestId c + 1), rpc_method = ''initialize'',
                      rpc_params = Some initialize_params \<rparr>
            False (c\<lparr>requestId := requestId c + 1\<rparr>, log))"
  by (simp add: initialize_def nextRequestId_def split: prod.splits sum.splits)

text \<open>
  C8, as the code has it. The best-effort call that sends the notification never raises,
  whatever the outcome of \<open>fetch\<close>. It gives the empty-success envelope when \<open>fetch\<close>
  rejects (network failure, timeout), when the reading of the body rejects, when the body
  is empty, and when the body is neither an event stream nor parseable JSON. The status is
  not looked at: a response outside 2xx is decoded as the same response with status 200
  would be. \<open>initialize\<close> returns what the \<open>initialize\<close> request returned or raised,
  whatever the notification did.
\<close>

theorem notification_best_effort:
  "(\<exists>v. fst (execute_on P c True out) = Inr v)
   \<and> fst (execute_on P c True (FetchRejected e)) = Inr (JObj [(''jsonrpc'', JStr ''2.0'')])
   \<and> (resp_text response = Inl e
        \<longrightarrow> fst (execute_on P c True (FetchResolved response)) = Inr (JObj [(''jsonrpc'', JStr ''2.0'')]))
   \<and> (resp_text response = Inr []
        \<longrightarrow> fst (execute_on P c True (FetchResolved response)) = Inr (JObj [(''jsonrpc'', JStr ''2.0'')]))
   \<and> (resp_text response = Inr body
        \<and> \<not> sublist ''text/event-stream'' (case headers_get response ''content-type'' of Some t \<Rightarrow> t | None \<Rightarrow> [])
        \<and> JSON_parse P body = Inl m
        \<longrightarrow> fst (execute_on P c True (FetchResolved response)) = Inr (JObj [(''jsonrpc'', JStr ''2.0'')]))
   \<and> fst (execute_on P c True (FetchResolved response)) =
       fst (execute_on P c True (FetchResolved (response\<lparr>status := 200\<rparr>)))
   \<and> fst (initialize P (c, log)) =
       fst (execute P \<lparr> rpc_id = Some (requestId c + 1), rpc_method = ''initialize'',
                        rpc_params = Some initialize_params \<rparr>
              False (c\<lparr>requestId := requestId c + 1\<rparr>, log))"
proof -
  have never: "\<exists>v. fst (execute_on P c True out) = Inr v"
    by (auto simp: execute_on_def execute_try_def execute_catch_def Let_def
             split: fetch_outcome.splits sum.splits)
  have rejected: "fst (execute_on P c True (FetchRejected e)) = Inr (JObj [(''jsonrpc'', JStr ''2.0'')])"
    by (simp add: execute_on_def execute_try_def execute_catch_def empty_envelope_def)
  have resolved: "fst (execute_on P c True (FetchResolved response)) = Inr (JObj [(''jsonrpc'', JStr ''2.0'')])"
    if "resp_text response = Inl e \<or> resp_text response = Inr []
        \<or> (resp_text response = Inr body
            \<and> \<not> sublist ''text/event-stream'' (case headers_get response ''content-type'' of Some t \<Rightarrow> t | None \<Rightarrow> [])
            \<and> JSON_parse P body = Inl m)"
    using that by (auto simp: execute_on_ignore_status empty_envelope_def)
  have status_free: "fst (execute_on P c True (FetchResolved response)) =
      fst (execute_on P c True (FetchResolved (response\<lparr>status := 200\<rparr>)))"
    by (cases "resp_text response") (simp_all add: execute_on_ignore_status headers_get_def)
  show ?thesis
    using never rejected resolved status_free initialize_result [of P c log] by blast
qed

theorem notification_best_effort_witness:
  "fst (execute_on (sample_platform unreachable_fetch) sample_client True
          (FetchRejected (JsError ''TypeError'' ''fetch failed'')))
     = Inr (JObj [(''jsonrpc'', JStr ''2.0'')])
   \<and> fst (execute_on (sample_platform unreachable_fetch) sample_client True
          (FetchResolved \<lparr> status = 200, statusText = ''OK'', resp_headers = [],
                           resp_text = Inl (JsError ''TypeError'' ''terminated'') \<rparr>))
     = Inr (JObj [(''jsonrpc'', JStr ''2.0'')])
   \<and> fst (execute_on (sample_platform unreachable_fetch) sample_client True
          (FetchResolved (response_with 404 ''Not Found'' [] [])))
     = Inr (JObj [(''jsonrpc'', JStr ''2.0'')])
   \<and> \<not> sublist ''text/event-stream'' ''text/html''
   \<and> JSON_parse (sample_platform unreachable_fetch) ''<html>Bad Gateway</html>'' = Inl ''Unexpected token''
   \<and> fst (execute_on (sample_platform unreachable_fetch) sample_client True
          (FetchResolved (response_with 502 ''Bad Gateway'' [(''content-type'', ''text/html'')] ''<html>Bad Gateway</html>'')))
     = Inr (JObj [(''jsonrpc'', JStr ''2.0'')])
   \<and> fst (initialize (sample_platform ok_then_unreachable_fetch) (sample_client, []))
     = Inr (JObj [(''jsonrpc'', JStr ''2.0''), (''result'', JObj [(''ok'', JBool True)])])"
proof -
  let ?P = "sample_platform unreachable_fetch"
  let ?e1 = "JsError ''TypeError'' ''fetch failed''"
  let ?e2 = "JsError ''TypeError'' ''terminated''"
  let ?r2 = "\<lparr> status = 200, statusText = ''OK'', resp_headers = [], resp_text = Inl ?e2 \<rparr>"
  let ?r3 = "response_with 404 ''Not Found'' [] []"
  let ?r4 = "response_with 502 ''Bad Gateway'' [(''content-type'', ''text/html'')] ''<html>Bad Gateway</html>''"
  have ns: "\<not> sublist ''text/event-stream'' ''text/html''"
    by code_simp
  have np: "JSON_parse ?P ''<html>Bad Gateway</html>'' = Inl ''Unexpected token''"
    by (simp add: sample_defs)
  have w1: "fst (execute_on ?P sample_client True (FetchRejected ?e1)) = Inr (JObj [(''jsonrpc'', JStr ''2.0'')])"
    by (rule notification_best_effort [where e = ?e1, THEN conjunct2, THEN conjunct1])
  have w2: "fst (execute_on ?P sample_client True (FetchResolved ?r2)) = Inr (JObj [(''jsonrpc'', JStr ''2.0'')])"
    by (rule notification_best_effort [where response = ?r2 and e = ?e2,
          THEN conjunct2, THEN conjunct2, THEN conjunct1, THEN mp]) simp
  have w3: "fst (execute_on ?P sample_client True (FetchResolved ?r3)) = Inr (JObj [(''jsonrpc'', JStr ''2.0'')])"
    by (rule notification_best_effort [where response = ?r3,
          THEN conjunct2, THEN conjunct2, THEN conjunct2, THEN conjunct1, THEN mp])
       (simp add: response_with_def)
  have w4: "fst (execute_on ?P sample_client True (FetchResolved ?r4)) = Inr (JObj [(''jsonrpc'', JStr ''2.0'')])"
    by (rule notification_best_effort [where response = ?r4 and body = "''<html>Bad Gateway</html>''"
            and m = "''Unexpected token''",
          THEN conjunct2, THEN conjunct2, THEN conjunct2, THEN conjunct2, THEN conjunct1, THEN mp])
       (simp add: response_with_def headers_get_def ns np)
  have "fst (initialize (sample_platform ok_then_unreachable_fetch) (sample_client, [])) =
       fst (execute (sample_platform ok_then_unreachable_fetch)
              \<lparr> rpc_id = Some (requestId sample_client + 1), rpc_method = ''initialize'',
                 rpc_params = Some initialize_params \<rparr>
              False (sample_client\<lparr>requestId := requestId sample_client + 1\<rparr>, []))"
    by (rule notification_best_effort [where log = "[]" and out = "FetchRejected ?e1" and e = ?e1 and response = ?r3,
          THEN conjunct2, THEN conjunct2, THEN conjunct2, THEN conjunct2, THEN conjunct2, THEN conjunct2])
  then have w6: "fst (initialize (sample_platform ok_then_unreachable_fetch) (sample_client, []))
      = Inr (JObj [(''jsonrpc'', JStr ''2.0''), (''result'', JObj [(''ok'', JBool True)])])"
    by (simp add: client_defs sample_defs ok_then_unreachable_fetch_def includes_str_def Let_def
          json_is_no_event_stream)
  from ns np w1 w2 w3 w4 w6 show ?thesis by blast
qed

text \<open>
  The claim as it is written fails for a notification answered outside 2xx with a JSON
  body: the best-effort call returns the parsed body, not the empty-success envelope.
\<close>

theorem notification_counterexample:
  "\<not> response_ok (response_with 400 ''Bad Request'' [(''content-type'', ''application/json'')] body_forbidden)
   \<and> fst (execute_on (sample_platform unreachable_fetch) sample_client True
          (FetchResolved (response_with 400 ''Bad Request'' [(''content-type'', ''application/json'')] body_forbidden)))
     = Inr (JObj [(''error'', JObj [(''message'', JStr ''forbidden'')])])
   \<and> JObj [(''error'', JObj [(''message'', JStr ''forbidden'')])] \<noteq> JObj [(''jsonrpc'', JStr ''2.0'')]"
  by (simp add: client_defs sample_defs includes_str_def Let_def json_is_no_event_stream)

section \<open>The agent loop\<close>

lemma agent_loop_no_tool_calls:
  assumes "toolIteration < 5"
    and "messages_create C (asked w @ [p]) = Inr response"
    and "p = \<lparr> cp_model = (case cfg_model config of None \<Rightarrow> DEFAULT_MODEL C | Some m \<Rightarrow> m),
                cp_system = systemPrompt, cp_messages = conversation,
                cp_max_tokens = 1024, cp_tools = anthropicTools \<rparr>"
    and "tool_calls_of (case content response of None \<Rightarrow> [] | Some bs \<Rightarrow> bs) = []"
  shows "agent_loop C P config context systemPrompt toolIteration conversation finalMessages outs w =
           (Inr \<lparr> messages = finalMessages @
                     [\<lparr> msg_role = Assistant,
                        msg_content = join ''\<newline>''
                          (text_blocks_of (case content response of None \<Rightarrow> [] | Some bs \<Rightarrow> bs)) \<rparr>],
                   toolOutputs = outs \<rparr>,
            w\<lparr>asked := asked w @ [p]\<rparr>)"
  using assms
  by (subst agent_loop.simps) (simp add: Let_def after_loop_def)

lemma runAgentTurn_enters_loop:
  "runAgentTurn C P history config w =
     agent_loop C P config
       (buildTaskContext (cfg_gatewayUrl config) (cfg_gatewayBaseUrl config) (cfg_gatewayToken config)
          (cfg_backendToken config))
       (cp_system (first_request C history config)) 0 (cp_messages (first_request C history config)) [] [] w"
  by (simp add: runAgentTurn_def first_request_def Let_def)

lemma first_request_fields:
  "first_request C history config =
     \<lparr> cp_model = (case cfg_model config of None \<Rightarrow> DEFAULT_MODEL C | Some m \<Rightarrow> m),
       cp_system = cp_system (first_request C history config),
       cp_messages = cp_messages (first_request C history config),
       cp_max_tokens = 1024, cp_tools = anthropicTools \<rparr>"
  by (simp add: first_request_def Let_def)

lemma join_short: "length xs \<le> 1 \<Longrightarrow> join sep xs = concat xs"
  by (cases xs) auto

text \<open>
  C9, as the code has it. When the response of the provider to the first request of the
  turn has no tool-use block, \<open>runAgentTurn\<close> ends after that one provider call, with no
  request sent and no script run, and returns exactly one assistant message: the text
  blocks of the response in order, joined with a newline between consecutive blocks. With
  at most one text block that is their concatenation.
\<close>

theorem text_only_first_turn:
  assumes "messages_create C (asked w @ [first_request C history config]) = Inr response"
    and "tool_calls_of (case content response of None \<Rightarrow> [] | Some bs \<Rightarrow> bs) = []"
  shows "runAgentTurn C P history config w =
           (Inr \<lparr> messages =
                     [\<lparr> msg_role = Assistant,
                        msg_content = join ''\<newline>''
                          (text_blocks_of (case content response of None \<Rightarrow> [] | Some bs \<Rightarrow> bs)) \<rparr>],
                   toolOutputs = [] \<rparr>,
            w\<lparr>asked := asked w @ [first_request C history config]\<rparr>)
         \<and> (length (text_blocks_of (case content response of None \<Rightarrow> [] | Some bs \<Rightarrow> bs)) \<le> 1 \<longrightarrow>
              join ''\<newline>'' (text_blocks_of (case content response of None \<Rightarrow> [] | Some bs \<Rightarrow> bs))
                = concat (text_blocks_of (case content response of None \<Rightarrow> [] | Some bs \<Rightarrow> bs)))"
proof -
  have "0 < (5 :: nat)" by simp
  from agent_loop_no_tool_calls [OF this assms(1) first_request_fields assms(2), of P _ "[]" "[]"]
  show ?thesis
    using join_short by (simp add: runAgentTurn_enters_loop)
qed

lemmas agent_defs = runAgentTurn_def buildTaskContext_def sample_collab_def sample_config_def sample_history_def
  empty_world_def tool_calls_of_def text_blocks_of_def after_loop_def DEFAULT_MODEL_def

lemma sample_first_request:
  "cp_messages (first_request C sample_history sample_config)
     = [\<lparr> entry_role = User, entry_content = TextContent ''is the gateway up?'' \<rparr>]
   \<and> cp_max_tokens (first_request C sample_history sample_config) = 1024"
  by (simp add: first_request_def sample_history_def Let_def)

theorem text_only_first_turn_witness:
  "messages_create (sample_collab texts_on_request)
       (asked empty_world @ [first_request (sample_collab texts_on_request) sample_history sample_config])
     = Inr \<lparr> content = Some [TextBlock ''Hello'', TextBlock ''world''] \<rparr>
   \<and> tool_calls_of [TextBlock ''Hello'', TextBlock ''world''] = []
   \<and> runAgentTurn (sample_collab texts_on_request) (sample_platform unreachable_fetch) sample_history sample_config
        empty_world
      = (Inr \<lparr> messages = [\<lparr> msg_role = Assistant, msg_content = ''Hello\<newline>world'' \<rparr>], toolOutputs = [] \<rparr>,
         empty_world\<lparr>asked := asked empty_world
            @ [first_request (sample_collab texts_on_request) sample_history sample_config]\<rparr>)
   \<and> messages_create (sample_collab one_text)
       (asked empty_world @ [first_request (sample_collab one_text) sample_history sample_config])
     = Inr \<lparr> content = Some [OtherBlock ''thinking'', TextBlock ''The gateway is up.''] \<rparr>
   \<and> tool_calls_of [OtherBlock ''thinking'', TextBlock ''The gateway is up.''] = []
   \<and> length (text_blocks_of [OtherBlock ''thinking'', TextBlock ''The gateway is up.'']) \<le> 1
   \<and> join ''\<newline>'' (text_blocks_of [OtherBlock ''thinking'', TextBlock ''The gateway is up.''])
      = concat (text_blocks_of [OtherBlock ''thinking'', TextBlock ''The gateway is up.''])
   \<and> fst (runAgentTurn (sample_collab one_text) (sample_platform unreachable_fetch) sample_history sample_config
        empty_world)
      = Inr \<lparr> messages = [\<lparr> msg_role = Assistant, msg_content = ''The gateway is up.'' \<rparr>], toolOutputs = [] \<rparr>"
proof -
  let ?C2 = "sample_collab texts_on_request"
  let ?C1 = "sample_collab one_text"
  let ?P = "sample_platform unreachable_fetch"
  let ?two = "\<lparr> content = Some [TextBlock ''Hello'', TextBlock ''world''] \<rparr>"
  let ?one = "\<lparr> content = Some [OtherBlock ''thinking'', TextBlock ''The gateway is up.''] \<rparr>"
  have a2: "messages_create ?C2 (asked empty_world @ [first_request ?C2 sample_history sample_config]) = Inr ?two"
    using sample_first_request [of ?C2]
    by (simp add: sample_collab_def texts_on_request_def empty_world_def)
  have b2: "tool_calls_of (case content ?two of None \<Rightarrow> [] | Some bs \<Rightarrow> bs) = []"
    by (simp add: tool_calls_of_def)
  have t2: "text_blocks_of [TextBlock ''Hello'', TextBlock ''world''] = [''Hello'', ''world'']"
    by (simp add: text_blocks_of_def)
  have a1: "messages_create ?C1 (asked empty_world @ [first_request ?C1 sample_history sample_config]) = Inr ?one"
    by (simp add: sample_collab_def one_text_def)
  have b1: "tool_calls_of (case content ?one of None \<Rightarrow> [] | Some bs \<Rightarrow> bs) = []"
    by (simp add: tool_calls_of_def)
  have t1: "text_blocks_of [OtherBlock ''thinking'', TextBlock ''The gateway is up.''] = [''The gateway is up.'']"
    by (simp add: text_blocks_of_def)
  from text_only_first_turn [OF a2 b2, of ?P]
  have w2: "runAgentTurn ?C2 ?P sample_history sample_config empty_world
      = (Inr \<lparr> messages = [\<lparr> msg_role = Assistant, msg_content = ''Hello\<newline>world'' \<rparr>], toolOutputs = [] \<rparr>,
         empty_world\<lparr>asked := asked empty_world @ [first_request ?C2 sample_history sample_config]\<rparr>)"
    by (simp add: t2)
  from text_only_first_turn [OF a1 b1, of ?P]
  have w1: "fst (runAgentTurn ?C1 ?P sample_history sample_config empty_world)
      = Inr \<lparr> messages = [\<lparr> msg_role = Assistant, msg_content = ''The gateway is up.'' \<rparr>], toolOutputs = [] \<rparr>"
    and j1: "join ''\<newline>'' (text_blocks_of [OtherBlock ''thinking'', TextBlock ''The gateway is up.''])
      = concat (text_blocks_of [OtherBlock ''thinking'', TextBlock ''The gateway is up.''])"
    by (simp_all add: t1)
  from a2 b2 w2 a1 b1 t1 j1 w1 show ?thesis by simp
qed

text \<open>
  The claim as it is written fails for a response with two text blocks: the message is
  not their concatenation, it has a newline between them.
\<close>

theorem text_only_counterexample:
  "tool_calls_of [TextBlock ''Hello'', TextBlock ''world''] = []
   \<and> fst (runAgentTurn (sample_collab two_texts) (sample_platform unreachable_fetch)
        sample_history sample_config empty_world)
      = Inr \<lparr> messages = [\<lparr> msg_role = Assistant, msg_content = ''Hello\<newline>world'' \<rparr>], toolOutputs = [] \<rparr>
   \<and> concat (text_blocks_of [TextBlock ''Hello'', TextBlock ''world'']) = ''Helloworld''
   \<and> ''Hello\<newline>world'' \<noteq> ''Helloworld''"
  by (simp add: agent_defs two_texts_def agent_loop.simps Let_def)

section \<open>The iteration cap\<close>

text \<open>
  A tool call that is not a \<open>registry_task\<close> always gives a tool result, and touches
  nothing but the requests sent.
\<close>

lemma executeMappedTool_returns:
  assumes "inv_type invocation \<noteq> TaskInvocation"
  shows "(\<exists>r. fst (executeMappedTool C P invocation gwUrl context w) = Inr r)
       \<and> asked (snd (executeMappedTool C P invocation gwUrl context w)) = asked w"
  using assms
  by (cases "inv_type invocation")
     (auto simp: executeMappedTool_def Let_def split: prod.splits sum.splits)

lemma run_tool_calls_returns:
  assumes "\<forall>c \<in> set calls. tu_name c \<noteq> ''registry_task''"
  shows "(\<exists>r. fst (run_tool_calls C P gwUrl context calls conversation outs w) = Inr r)
       \<and> asked (snd (run_tool_calls C P gwUrl context calls conversation outs w)) = asked w"
  using assms
proof (induction calls arbitrary: conversation outs w)
  case Nil
  then show ?case by simp
next
  case (Cons call calls)
  let ?e = "executeMappedTool C P (mapToolCall call) gwUrl context w"
  from Cons.prems have "inv_type (mapToolCall call) \<noteq> TaskInvocation"
    by (simp add: mapToolCall_def)
  from executeMappedTool_returns [OF this, of C P gwUrl "context" w]
  obtain r where r: "fst ?e = Inr r" and a: "asked (snd ?e) = asked w"
    by blast
  then obtain w' where e: "?e = (Inr r, w')" and a': "asked w' = asked w"
    by (cases ?e) auto
  from Cons.prems have rest: "\<forall>c \<in> set calls. tu_name c \<noteq> ''registry_task''"
    by simp
  from Cons.IH [OF rest] e a' show ?case
    by simp
qed

lemma agent_loop_limit:
  assumes prov: "\<And>ps. \<exists>bs. messages_create C ps = Inr \<lparr> content = Some bs \<rparr> \<and> tool_calls_of bs \<noteq> []
                    \<and> (\<forall>c \<in> set (tool_calls_of bs). tu_name c \<noteq> ''registry_task'')"
  shows "n = 5 - toolIteration \<Longrightarrow> toolIteration \<le> 5 \<Longrightarrow>
     \<exists>outs' w'. agent_loop C P config context systemPrompt toolIteration conversation [] outs w
                  = (Inr \<lparr> messages = [limit_message], toolOutputs = outs' \<rparr>, w')
               \<and> length (asked w') = length (asked w) + (5 - toolIteration)"
proof (induction n arbitrary: toolIteration conversation outs w)
  case 0
  then have "toolIteration = 5" by simp
  then show ?case
    by (subst agent_loop.simps) (simp add: after_loop_def)
next
  case (Suc n)
  then have lt: "toolIteration < 5" and n: "n = 5 - (toolIteration + 1)" and le: "toolIteration + 1 \<le> 5"
    by simp_all
  let ?p = "\<lparr> cp_model = (case cfg_model config of None \<Rightarrow> DEFAULT_MODEL C | Some m \<Rightarrow> m),
              cp_system = systemPrompt, cp_messages = conversation,
              cp_max_tokens = 1024, cp_tools = anthropicTools \<rparr>"
  let ?w1 = "w\<lparr>asked := asked w @ [?p]\<rparr>"
  from prov [of "asked w @ [?p]"] obtain bs
    where resp: "messages_create C (asked w @ [?p]) = Inr \<lparr> content = Some bs \<rparr>"
      and calls: "tool_calls_of bs \<noteq> []"
      and names: "\<forall>c \<in> set (tool_calls_of bs). tu_name c \<noteq> ''registry_task''"
    by blast
  let ?conv1 = "conversation @ [\<lparr> entry_role = Assistant, entry_content = BlocksContent (Some bs) \<rparr>]"
  let ?t = "run_tool_calls C P (cfg_gatewayUrl config) context (tool_calls_of bs) ?conv1 outs ?w1"
  from run_tool_calls_returns [OF names, of C P "cfg_gatewayUrl config" "context" ?conv1 outs ?w1]
  obtain conv2 outs2 w2 where t: "?t = (Inr (conv2, outs2), w2)" and a2: "asked w2 = asked w @ [?p]"
    by (cases ?t) auto
  from Suc.IH [OF n le, of conv2 outs2 w2]
  obtain outs' w' where
    rec: "agent_loop C P config context systemPrompt (toolIteration + 1) conv2 [] outs2 w2
            = (Inr \<lparr> messages = [limit_message], toolOutputs = outs' \<rparr>, w')"
    and len: "length (asked w') = length (asked w2) + (5 - (toolIteration + 1))"
    by blast
  have "agent_loop C P config context systemPrompt toolIteration conversation [] outs w
          = (Inr \<lparr> messages = [limit_message], toolOutputs = outs' \<rparr>, w')"
    using lt resp calls t rec by (subst agent_loop.simps) (simp add: Let_def)
  moreover have "length (asked w') = length (asked w) + (5 - toolIteration)"
    using len a2 lt by simp
  ultimately show ?case by blast
qed

text \<open>
  When the provider asks for at least one tool on every turn and never for a
  \<open>registry_task\<close>, \<open>runAgentTurn\<close> returns after exactly five provider calls, with the
  limit message as its only message.
\<close>

lemma agent_turn_limit:
  assumes "\<And>ps. \<exists>bs. messages_create C ps = Inr \<lparr> content = Some bs \<rparr> \<and> tool_calls_of bs \<noteq> []
                    \<and> (\<forall>c \<in> set (tool_calls_of bs). tu_name c \<noteq> ''registry_task'')"
  shows "\<exists>outs' w'. runAgentTurn C P history config w
                  = (Inr \<lparr> messages = [\<lparr> msg_role = Assistant,
                                           msg_content = ''Reached tool usage limit without final response.'' \<rparr>],
                           toolOutputs = outs' \<rparr>, w')
               \<and> length (asked w') = length (asked w) + 5"
  using agent_loop_limit [OF assms refl, of 0 P config]
  unfolding runAgentTurn_def Let_def limit_message_def by simp

section \<open>Failures inside a tool execution\<close>

lemmas executor_defs = executeMappedTool_def mapToolCall_def executeSlashCommand_def executeMcp_def executeCall_def
  executeMcpCommand_def String_or_empty_def lookup_def truthy_opt_def parseCommand_bare_def startsWith_def
  trim_def is_js_space_def task_ping_call_def mcp_ping_call_def mcp_call_no_tool_def sample_context_def

text \<open>
  C3 fails on the code. With the gateway unreachable, a \<open>registry_task\<close> call with the
  command \<open>ping\<close> lets the error of \<open>fetch\<close> leave \<open>executeMappedTool\<close>: there is no tool
  result. The same failure under an \<open>mcp_command\<close> call is caught and becomes the tool
  result \<open>{output, isError: true}\<close>.
\<close>

theorem task_tool_failure_escapes:
  "fst (executeMappedTool (sample_collab always_task_ping) (sample_platform unreachable_fetch)
          (mapToolCall task_ping_call) ''http://localhost/mcpgw/mcp'' sample_context empty_world)
     = Inl (JsError ''TypeError'' ''fetch failed'')
   \<and> fst (executeMappedTool (sample_collab always_task_ping) (sample_platform unreachable_fetch)
          (mapToolCall mcp_ping_call) ''http://localhost/mcpgw/mcp'' sample_context empty_world)
     = Inr \<lparr> res_output = ''fetch failed'', res_isError = Some True \<rparr>"
  by (simp add: executor_defs agent_defs client_defs sample_defs unreachable_fetch_def Let_def)

text \<open>
  This failure does not depend on the sample: whenever the parser reads \<open>/ping\<close> as
  the ping command and \<open>fetch\<close> rejects the handshake, the \<open>registry_task\<close> call raises.
\<close>

lemma task_ping_raises:
  assumes "parseCommand C ''/ping'' = Ping"
    and "\<And>log. fetch P log = FetchRejected e"
  shows "\<exists>e'. fst (executeMappedTool C P (mapToolCall task_ping_call) gwUrl context w) = Inl e'"
  using assms
  by (simp add: executeMappedTool_def mapToolCall_def task_ping_call_def String_or_empty_def lookup_def
        truthy_opt_def trim_def is_js_space_def startsWith_def executeSlashCommand_def executeMcp_def
        executeMcpCommand_def initialize_def nextRequestId_def execute_def execute_on_def execute_try_def
        execute_catch_def Let_def)

text \<open>
  C2 fails on the code, by the same defect. The provider asks for a tool on every turn;
  the first tool execution raises, and \<open>runAgentTurn\<close> raises with it after one provider
  call instead of returning the limit message after five.
\<close>

theorem agent_turn_raises:
  "fst (runAgentTurn (sample_collab always_task_ping) (sample_platform unreachable_fetch)
          sample_history sample_config empty_world)
     = Inl (JsError ''TypeError'' ''fetch failed'')
   \<and> length (asked (snd (runAgentTurn (sample_collab always_task_ping) (sample_platform unreachable_fetch)
          sample_history sample_config empty_world))) = 1"
  by (simp add: agent_defs always_task_ping_def agent_loop.simps executor_defs client_defs sample_defs
        unreachable_fetch_def Let_def)

section \<open>A call without a tool name\<close>

text \<open>
  C4 fails on the code. \<open>executeMcpCommand\<close> with the command \<open>call\<close> and no call options
  raises its validation error only after the handshake: the \<open>initialize\<close> request and the
  notification have been sent. This is what an \<open>mcp_command\<close> call of the agent with no
  tool reaches. \<open>callTool\<close> with an empty name does not validate at all and sends the
  request. \<open>executeCall\<close>, for the slash command, does validate before any request.
\<close>

theorem call_without_tool_sends_requests:
  "fst (executeMcpCommand (sample_platform empty_ok_fetch) ''call'' ''http://localhost/mcpgw/mcp'' None None None [])
     = Inl (Error ''Tool name and args are required for /call.'')
   \<and> map (\<lambda>r. rpc_method (req_body r))
        (snd (executeMcpCommand (sample_platform empty_ok_fetch) ''call'' ''http://localhost/mcpgw/mcp'' None None None []))
     = [''initialize'', ''notifications/initialized'']
   \<and> fst (executeMappedTool (sample_collab always_task_ping) (sample_platform empty_ok_fetch)
          (mapToolCall mcp_call_no_tool) ''http://localhost/mcpgw/mcp'' sample_context empty_world)
     = Inr \<lparr> res_output = ''Tool name and args are required for /call.'', res_isError = Some True \<rparr>
   \<and> map (\<lambda>r. rpc_method (req_body r))
        (sent (snd (executeMappedTool (sample_collab always_task_ping) (sample_platform empty_ok_fetch)
          (mapToolCall mcp_call_no_tool) ''http://localhost/mcpgw/mcp'' sample_context empty_world)))
     = [''initialize'', ''notifications/initialized'']
   \<and> map (\<lambda>r. rpc_method (req_body r))
        (snd (snd (callTool (sample_platform empty_ok_fetch) [] (JObj []) (sample_client, []))))
     = [''tools/call'']
   \<and> executeCall (sample_platform empty_ok_fetch) [] None sample_context empty_world
     = (Inr \<lparr> lines = [''Tool name is required for /call.''], isError = Some True \<rparr>, empty_world)"
  by (simp add: executor_defs agent_defs client_defs sample_defs empty_ok_fetch_def Error_def Let_def)

end
